theory Spec2Isabelle
  imports Complex_Main "HOL-Library.AList"
begin

section \<open>Geometry value objects (ISI-Core/src/interfaces/geometry\_interfaces.py)\<close>

text \<open>
  Python floats are modelled as real numbers: every arithmetic operation is exact, and
  there is no NaN, no infinity and no rounding.  Exceptions are values of type
  \<open>error\<close>; a function that may raise returns \<open>error + 'a\<close> with \<open>Inl\<close> the
  exception.  \<open>NonFinite\<close> is not an exception: it marks a run in which NumPy would
  produce NaN and go on, which the real numbers cannot follow.  The pydantic models are records, their validators are the \<open>_new\<close>
  constructors.  The fields \<open>x\<close>, \<open>y\<close>, \<open>z\<close> of \<open>Vector3D\<close> are called \<open>vx\<close>,
  \<open>vy\<close>, \<open>vz\<close> here.
\<close>

datatype error =
  TypeError | ValueError | ValidationError | IndexError | LinAlgError | NonFinite

record Vector3D =
  vx :: real
  vy :: real
  vz :: real

text \<open>The validator \<open>validate_finite\<close>: a coordinate outside \<open>[-1e10, 1e10]\<close> is refused.\<close>

definition in_range :: "real \<Rightarrow> bool" where
  "in_range v \<longleftrightarrow> - (10 ^ 10) \<le> v \<and> v \<le> 10 ^ 10"

definition Vector3D_new :: "real \<Rightarrow> real \<Rightarrow> real \<Rightarrow> error + Vector3D" where
  "Vector3D_new a b c =
     (if in_range a \<and> in_range b \<and> in_range c
      then Inr \<lparr>vx = a, vy = b, vz = c\<rparr> else Inl ValidationError)"

definition valid_vector :: "Vector3D \<Rightarrow> bool" where
  "valid_vector v \<longleftrightarrow> in_range (vx v) \<and> in_range (vy v) \<and> in_range (vz v)"

type_synonym matrix = "real list list"


record LandmarkSet =
  nose :: Vector3D
  tail :: Vector3D
  left_ear :: Vector3D
  right_ear :: Vector3D
  face_center :: "Vector3D option"

text \<open>
  The constructor of \<open>LandmarkSet\<close> with keyword arguments: an argument that is left out
  (or is \<open>None\<close>) is \<open>None\<close> here.  \<open>nose\<close>, \<open>tail\<close>, \<open>left_ear\<close> and \<open>right_ear\<close> are
  declared with \<open>Field(...)\<close>, that is required; \<open>face_center\<close> is
  \<open>Optional[Vector3D] = Field(None)\<close>.
\<close>

definition LandmarkSet_new ::
  "Vector3D option \<Rightarrow> Vector3D option \<Rightarrow> Vector3D option \<Rightarrow> Vector3D option \<Rightarrow>
   Vector3D option \<Rightarrow> error + LandmarkSet" where
  "LandmarkSet_new n t l r f =
     (case (n, t, l, r) of
        (Some n', Some t', Some l', Some r') \<Rightarrow>
          Inr \<lparr>nose = n', tail = t', left_ear = l', right_ear = r', face_center = f\<rparr>
      | _ \<Rightarrow> Inl ValidationError)"

record GeometryParameters =
  scale_factor :: real
  alignment_tolerance :: real
  ear_alignment_axis :: string
  nose_tail_axis :: string



record AlignmentResult =
  transformation_matrix :: matrix
  alignment_errors :: "string \<rightharpoonup> real"
  is_valid :: bool

text \<open>The validator \<open>validate_errors\<close>: the three keys must be present.\<close>

definition AlignmentResult_new ::
  "matrix \<Rightarrow> (string \<rightharpoonup> real) \<Rightarrow> bool \<Rightarrow> error + AlignmentResult" where
  "AlignmentResult_new m errs v =
     (if list_all (\<lambda>key. errs key \<noteq> None)
           [''nose_tail_alignment'', ''ear_alignment'', ''overall_error'']
      then Inr \<lparr>transformation_matrix = m, alignment_errors = errs, is_valid = v\<rparr>
      else Inl ValidationError)"

section \<open>NumPy operations used by the services\<close>

fun np_dot :: "real list \<Rightarrow> real list \<Rightarrow> real" where
  "np_dot (a # as) (b # bs) = a * b + np_dot as bs"
| "np_dot _ _ = 0"

definition np_norm :: "real list \<Rightarrow> real" where
  "np_norm v = sqrt (np_dot v v)"


definition vec_scale :: "real \<Rightarrow> real list \<Rightarrow> real list" where
  "vec_scale c v = map (\<lambda>a. c * a) v"

definition vec_div :: "real list \<Rightarrow> real \<Rightarrow> real list" where
  "vec_div v c = map (\<lambda>a. a / c) v"

definition vec_add :: "real list \<Rightarrow> real list \<Rightarrow> real list" where
  "vec_add u v = map2 (+) u v"

definition vec_sub :: "real list \<Rightarrow> real list \<Rightarrow> real list" where
  "vec_sub u v = map2 (-) u v"

text \<open>\<open>np.dot\<close> of a matrix and a vector, and of two matrices (rows of the result are
  the linear combinations of the rows of the right factor).\<close>

definition mat_vec :: "matrix \<Rightarrow> real list \<Rightarrow> real list" where
  "mat_vec m v = map (\<lambda>row. np_dot row v) m"





definition eye3 :: matrix where
  "eye3 = [[1, 0, 0], [0, 1, 0], [0, 0, 1]]"

definition eye4 :: matrix where
  "eye4 = [[1, 0, 0, 0], [0, 1, 0, 0], [0, 0, 1, 0], [0, 0, 0, 1]]"



definition degrees :: "real \<Rightarrow> real" where
  "degrees r = r * (180 / pi)"

section \<open>NumpyGeometryProvider (ISI-Core/src/services/geometry\_service.py)\<close>

text \<open>
  \<open>normalize_vector\<close>: the zero vector raises \<open>ValueError\<close>.  The second check of the
  source, \<open>not math.isfinite(magnitude)\<close>, cannot fire on a validated vector (its
  coordinates are bounded by \<open>1e10\<close>) and has no counterpart over the reals.
\<close>

definition normalize_vector :: "Vector3D \<Rightarrow> error + Vector3D" where
  "normalize_vector v =
     (let magnitude = sqrt ((vx v)\<^sup>2 + (vy v)\<^sup>2 + (vz v)\<^sup>2) in
      if magnitude = 0 then Inl ValueError
      else Vector3D_new (vx v / magnitude) (vy v / magnitude) (vz v / magnitude))"

section \<open>PrecisionAlignmentCalculator.\_calculate\_alignment\_error\<close>

definition axis_target :: "string \<Rightarrow> error + Vector3D" where
  "axis_target a =
     (if a = ''x'' then Vector3D_new 1 0 0
      else if a = ''y'' then Vector3D_new 0 1 0
      else if a = ''z'' then Vector3D_new 0 0 1
      else Inl ValueError)"

definition calculate_alignment_error :: "Vector3D \<Rightarrow> string \<Rightarrow> error + real" where
  "calculate_alignment_error vector target_axis =
     (case normalize_vector vector of
        Inl e \<Rightarrow> Inl e
      | Inr normalized \<Rightarrow>
         (case axis_target target_axis of
            Inl e \<Rightarrow> Inl e
          | Inr target \<Rightarrow>
             (let dot_product = vx normalized * vx target + vy normalized * vy target
                                + vz normalized * vz target;
                  dot_product = max (- 1) (min 1 dot_product);
                  angle_rad = arccos \<bar>dot_product\<bar>;
                  angle_deg = degrees angle_rad
              in Inr angle_deg)))"


section \<open>QuaternionTransformationCalculator\<close>




definition transform_point :: "matrix \<Rightarrow> Vector3D \<Rightarrow> error + Vector3D" where
  "transform_point transform_matrix point =
     (let homogeneous_point = [vx point, vy point, vz point, 1];
          transformed_homogeneous = mat_vec transform_matrix homogeneous_point
      in if transformed_homogeneous ! 3 = 0 then Inl ValueError
         else Vector3D_new (transformed_homogeneous ! 0 / transformed_homogeneous ! 3)
                           (transformed_homogeneous ! 1 / transformed_homogeneous ! 3)
                           (transformed_homogeneous ! 2 / transformed_homogeneous ! 3))"

fun apply_transformation :: "matrix \<Rightarrow> Vector3D list \<Rightarrow> error + Vector3D list" where
  "apply_transformation m [] = Inr []"
| "apply_transformation m (point # points) =
     (case transform_point m point of
        Inl e \<Rightarrow> Inl e
      | Inr q \<Rightarrow>
         (case apply_transformation m points of
            Inl e \<Rightarrow> Inl e
          | Inr qs \<Rightarrow> Inr (q # qs)))"

section \<open>PrecisionAlignmentCalculator.verify\_alignment\<close>

definition vector_between :: "Vector3D \<Rightarrow> Vector3D \<Rightarrow> error + Vector3D" where
  "vector_between a b = Vector3D_new (vx b - vx a) (vy b - vy a) (vz b - vz a)"

definition verify_alignment ::
  "LandmarkSet \<Rightarrow> matrix \<Rightarrow> GeometryParameters \<Rightarrow> error + AlignmentResult" where
  "verify_alignment landmarks m params =
     (case apply_transformation m
             [nose landmarks, tail landmarks, left_ear landmarks, right_ear landmarks] of
        Inl e \<Rightarrow> Inl e
      | Inr transformed_points \<Rightarrow>
     (case (case face_center landmarks of
              None \<Rightarrow> Inr None
            | Some fc \<Rightarrow>
               (case apply_transformation m [fc] of
                  Inl e \<Rightarrow> Inl e
                | Inr face_center_transformed \<Rightarrow> Inr (Some (face_center_transformed ! 0)))) of
        Inl e \<Rightarrow> Inl e
      | Inr face_center' \<Rightarrow>
     (case LandmarkSet_new (Some (transformed_points ! 0)) (Some (transformed_points ! 1))
             (Some (transformed_points ! 2)) (Some (transformed_points ! 3)) face_center' of
        Inl e \<Rightarrow> Inl e
      | Inr transformed_landmarks \<Rightarrow>
     (case vector_between (nose transformed_landmarks) (tail transformed_landmarks) of
        Inl e \<Rightarrow> Inl e
      | Inr nose_tail_vector \<Rightarrow>
     (case vector_between (left_ear transformed_landmarks)
             (right_ear transformed_landmarks) of
        Inl e \<Rightarrow> Inl e
      | Inr ear_vector \<Rightarrow>
     (case calculate_alignment_error nose_tail_vector (nose_tail_axis params) of
        Inl e \<Rightarrow> Inl e
      | Inr nose_tail_error \<Rightarrow>
     (case calculate_alignment_error ear_vector (ear_alignment_axis params) of
        Inl e \<Rightarrow> Inl e
      | Inr ear_error \<Rightarrow>
         (let overall_error = max nose_tail_error ear_error;
              is_valid = (overall_error \<le> alignment_tolerance params)
          in AlignmentResult_new m
               [''nose_tail_alignment'' \<mapsto> nose_tail_error,
                ''ear_alignment'' \<mapsto> ear_error,
                ''overall_error'' \<mapsto> overall_error]
               is_valid))))))))"

section \<open>The alignment error as the specification words it\<close>

text \<open>
  The specification's formula for the angular deviation of a vector from its target
  axis, \<open>degrees(acos(|normalize(v) . target_axis|))\<close>, written from its words (no
  clamping, no error cases), to be compared with \<open>calculate_alignment_error\<close>.
\<close>

definition spec_axis :: "string \<Rightarrow> real list" where
  "spec_axis a =
     (if a = ''x'' then [1, 0, 0] else if a = ''y'' then [0, 1, 0] else [0, 0, 1])"

definition spec_angular_deviation :: "real list \<Rightarrow> string \<Rightarrow> real" where
  "spec_angular_deviation v a =
     degrees (arccos \<bar>np_dot (vec_div v (np_norm v)) (spec_axis a)\<bar>)"

definition difference :: "Vector3D \<Rightarrow> Vector3D \<Rightarrow> real list" where
  "difference b a = [vx b - vx a, vy b - vy a, vz b - vz a]"

section \<open>Parts of a homogeneous transform, and the inputs of the scenarios\<close>



text \<open>The default parameters of \<open>GeometryParameters\<close>: scale 8, tolerance 0.5 degrees,
  ears along \<open>x\<close>, nose to tail along \<open>z\<close>.\<close>

definition default_parameters :: GeometryParameters where
  "default_parameters =
     \<lparr>scale_factor = 8, alignment_tolerance = 1 / 2,
      ear_alignment_axis = ''x'', nose_tail_axis = ''z''\<rparr>"



text \<open>Landmarks already in the canonical frame: nose to tail along \<open>z\<close>, ears along
  \<open>x\<close>; the same with the ears along \<open>y\<close>; and the same with both ears at one point.\<close>

definition aligned_landmarks :: LandmarkSet where
  "aligned_landmarks =
     \<lparr>nose = \<lparr>vx = 0, vy = 0, vz = 0\<rparr>, tail = \<lparr>vx = 0, vy = 0, vz = 1\<rparr>,
      left_ear = \<lparr>vx = 0, vy = 0, vz = 0\<rparr>, right_ear = \<lparr>vx = 1, vy = 0, vz = 0\<rparr>,
      face_center = None\<rparr>"


definition coincident_ears :: LandmarkSet where
  "coincident_ears =
     \<lparr>nose = \<lparr>vx = 0, vy = 0, vz = 0\<rparr>, tail = \<lparr>vx = 0, vy = 0, vz = 1\<rparr>,
      left_ear = \<lparr>vx = 1, vy = 0, vz = 0\<rparr>, right_ear = \<lparr>vx = 1, vy = 0, vz = 0\<rparr>,
      face_center = None\<rparr>"

text \<open>The result of verifying \<open>aligned_landmarks\<close> under the identity transform.\<close>

definition aligned_result :: AlignmentResult where
  "aligned_result =
     \<lparr>transformation_matrix = eye4,
      alignment_errors = [''nose_tail_alignment'' \<mapsto> 0, ''ear_alignment'' \<mapsto> 0,
                          ''overall_error'' \<mapsto> 0],
      is_valid = True\<rparr>"

section \<open>DensityLandmarkDetector (ISI-Integration/src/python/density\_landmark\_detector.py)\<close>

text \<open>
  A vertex array of shape \<open>(N, 3)\<close> is the list of its rows.  The detector object is a
  record that the methods take and return updated; the \<open>landmarks\<close> dictionary keeps
  its insertion order, so it is an association list.  Log output is not modelled.

  Two things are outside this file.  \<open>numpy.linalg.eigh\<close> is a library routine: it is
  the parameter \<open>eigh\<close> of the functions below, from a symmetric matrix to its
  eigenvalues in ascending order and the matrix whose columns are the eigenvectors, or
  to \<open>LinAlgError\<close>.  And where NumPy produces NaN without raising (the mean of no
  rows, the covariance of fewer than two observations) the model stops with
  \<open>NonFinite\<close>: this is not an exception of the source, the run has left the
  real numbers.
\<close>

definition ebind :: "error + 'a \<Rightarrow> ('a \<Rightarrow> error + 'b) \<Rightarrow> error + 'b" where
  "ebind m f = (case m of Inl e \<Rightarrow> Inl e | Inr a \<Rightarrow> f a)"

record DensityLandmarkDetector =
  vertices :: "matrix option"
  faces :: "nat list list option"
  centroid :: "real list option"
  principal_axes :: "matrix option"
  landmarks :: "(string \<times> real list) list"

record metadata =
  detection_method :: string
  coordinate_system :: string
  md_centroid :: "real list option"
  md_principal_axes :: "matrix option"
  landmarks_detected :: "string list"
  vertex_count :: nat

record detection_results =
  res_landmarks :: "(string \<times> real list) list"
  res_metadata :: metadata

text \<open>Reductions of NumPy: on an empty array \<open>min\<close>, \<open>max\<close>, \<open>argmin\<close> and \<open>argmax\<close>
  raise \<open>ValueError\<close>, \<open>mean\<close> is NaN.  \<open>argmin\<close> and \<open>argmax\<close> return the first
  index of the extreme value.\<close>

definition np_min :: "real list \<Rightarrow> error + real" where
  "np_min xs = (case xs of [] \<Rightarrow> Inl ValueError | x # xs' \<Rightarrow> Inr (fold min xs' x))"

definition np_max :: "real list \<Rightarrow> error + real" where
  "np_max xs = (case xs of [] \<Rightarrow> Inl ValueError | x # xs' \<Rightarrow> Inr (fold max xs' x))"

definition first_index :: "real list \<Rightarrow> real \<Rightarrow> nat" where
  "first_index xs m = length (takeWhile (\<lambda>x. x \<noteq> m) xs)"

definition np_argmin :: "real list \<Rightarrow> error + nat" where
  "np_argmin xs = ebind (np_min xs) (\<lambda>m. Inr (first_index xs m))"

definition np_argmax :: "real list \<Rightarrow> error + nat" where
  "np_argmax xs = ebind (np_max xs) (\<lambda>m. Inr (first_index xs m))"

definition np_mean :: "real list \<Rightarrow> error + real" where
  "np_mean xs = (if xs = [] then Inl NonFinite else Inr (sum_list xs / real (length xs)))"

text \<open>\<open>a[mask]\<close> for a boolean mask, and \<open>np.sum(mask)\<close>.\<close>

definition masked :: "'a list \<Rightarrow> bool list \<Rightarrow> 'a list" where
  "masked xs msk = map fst (filter snd (zip xs msk))"

definition np_sum_mask :: "bool list \<Rightarrow> nat" where
  "np_sum_mask msk = length (filter (\<lambda>b. b) msk)"

text \<open>The columns of an array given by its rows (\<open>.T\<close>), for rows of one length.\<close>

definition np_transpose :: "matrix \<Rightarrow> matrix" where
  "np_transpose m =
     (case m of [] \<Rightarrow> [] | r # _ \<Rightarrow> map (\<lambda>j. map (\<lambda>row. row ! j) m) [0..<length r])"

definition np_mean_axis0 :: "matrix \<Rightarrow> error + real list" where
  "np_mean_axis0 vs =
     (if vs = [] then Inl NonFinite
      else Inr (map (\<lambda>col. sum_list col / real (length vs)) (np_transpose vs)))"

text \<open>\<open>np.cov(X)\<close>: each row of \<open>X\<close> is a variable, each column an observation; the
  rows are centred and the products divided by \<open>N - 1\<close>.\<close>

definition np_cov :: "matrix \<Rightarrow> error + matrix" where
  "np_cov X =
     (let N = (case X of [] \<Rightarrow> 0 | r # _ \<Rightarrow> length r) in
      if N < 2 then Inl NonFinite
      else
       (let Xc = map (\<lambda>row. map (\<lambda>a. a - sum_list row / real N) row) X
        in Inr (map (\<lambda>r1. map (\<lambda>r2. np_dot r1 r2 * (1 / (real N - 1))) Xc) Xc)))"

text \<open>\<open>np.argsort\<close>: the indices in the order of the values (for three values NumPy
  sorts by insertion, which keeps equal values in their order).\<close>

definition np_argsort :: "real list \<Rightarrow> nat list" where
  "np_argsort xs = map snd (sort_key fst (zip xs [0..<length xs]))"

text \<open>\<open>np.linspace(a, b, num)\<close>, \<open>np.diff\<close>, and \<open>np.convolve(a, v, mode="same")\<close> for
  \<open>len(v) \<le> len(a)\<close>: the middle \<open>len(a)\<close> entries of the full convolution, from
  index \<open>(len(v) - 1) // 2\<close> on.\<close>

definition np_linspace :: "real \<Rightarrow> real \<Rightarrow> nat \<Rightarrow> real list" where
  "np_linspace a b num = map (\<lambda>i. a + real i * ((b - a) / real (num - 1))) [0..<num]"

definition np_diff :: "real list \<Rightarrow> real list" where
  "np_diff xs = map2 (\<lambda>b a. b - a) (tl xs) xs"

definition convolve_full :: "real list \<Rightarrow> real list \<Rightarrow> real list" where
  "convolve_full a v =
     map (\<lambda>k. sum_list (map (\<lambda>j. if j \<le> k \<and> k - j < length v then a ! j * v ! (k - j) else 0)
                         [0..<length a]))
         [0..<length a + length v - 1]"

definition np_convolve_same :: "real list \<Rightarrow> real list \<Rightarrow> real list" where
  "np_convolve_same a v = take (length a) (drop ((length v - 1) div 2) (convolve_full a v))"

text \<open>\<open>_analyze_mesh_geometry\<close>.  \<open>eigh\<close> returns arrays of matching shapes, \<open>k\<close>
  eigenvalues and a \<open>k\<close> by \<open>k\<close> matrix, so that the indexing by \<open>sort_indices\<close> is in
  range; the last step of the source formats \<open>self.principal_axes[0]\<close> for the log,
  which raises \<open>IndexError\<close> on an array without rows.\<close>

definition analyze_mesh_geometry ::
  "(matrix \<Rightarrow> error + real list \<times> matrix) \<Rightarrow> DensityLandmarkDetector \<Rightarrow>
   error + DensityLandmarkDetector" where
  "analyze_mesh_geometry eigh self =
     (case vertices self of
        None \<Rightarrow> Inl ValueError
      | Some vs \<Rightarrow>
         ebind (np_mean_axis0 vs) (\<lambda>c.
           let centered_vertices = map (\<lambda>v. vec_sub v c) vs in
           ebind (np_cov (np_transpose centered_vertices)) (\<lambda>covariance_matrix.
             ebind (eigh covariance_matrix) (\<lambda>(eigenvalues, eigenvectors).
               let sort_indices = rev (np_argsort eigenvalues);
                   eigenvalues = map (\<lambda>i. eigenvalues ! i) sort_indices;
                   eigenvectors = map (\<lambda>row. map (\<lambda>i. row ! i) sort_indices) eigenvectors
               in if np_transpose eigenvectors = [] then Inl IndexError
                  else Inr (self\<lparr>centroid := Some c,
                                  principal_axes := Some (np_transpose eigenvectors)\<rparr>)))))"

text \<open>\<open>_fallback_to_extremes\<close>: the vertex of greatest projection is the nose, the one
  of least projection the tail tip.\<close>

definition fallback_to_extremes ::
  "DensityLandmarkDetector \<Rightarrow> real list \<Rightarrow> error + DensityLandmarkDetector" where
  "fallback_to_extremes self projections =
     (case vertices self of
        None \<Rightarrow> Inl TypeError
      | Some vs \<Rightarrow>
         ebind (np_argmin projections) (\<lambda>min_idx.
         ebind (np_argmax projections) (\<lambda>max_idx.
           let nose_point = vs ! max_idx;
               tail_point = vs ! min_idx;
               tail_attachment =
                 vec_add nose_point (vec_scale (7 / 10) (vec_sub tail_point nose_point))
           in Inr (self\<lparr>landmarks :=
                     AList.update ''tail_attachment'' tail_attachment
                       (AList.update ''tail_tip'' tail_point
                         (AList.update ''nose'' nose_point (landmarks self)))\<rparr>))))"

text \<open>One pass of the slice loop: the vertices within \<open>slice_thickness\<close> of the slice
  position; with more than five of them, the density of the slice, its position and its
  vertex count.\<close>

definition slice_entry ::
  "matrix \<Rightarrow> real list \<Rightarrow> real list \<Rightarrow> real list \<Rightarrow> real \<Rightarrow> real \<Rightarrow>
   (real \<times> real \<times> nat) option" where
  "slice_entry vs c primary_axis projections slice_thickness slice_pos =
     (let distances_to_slice = map (\<lambda>p. \<bar>p - slice_pos\<bar>) projections;
          slice_vertices = masked vs (map (\<lambda>d. d \<le> slice_thickness) distances_to_slice)
      in if length slice_vertices > 5 then
          (let slice_center_3d = vec_add c (vec_scale slice_pos primary_axis);
               distances_from_axis =
                 map (\<lambda>v. let to_vertex = vec_sub v slice_center_3d;
                              projected_on_axis =
                                vec_scale (np_dot to_vertex primary_axis) primary_axis;
                              perpendicular = vec_sub to_vertex projected_on_axis
                          in np_norm perpendicular) slice_vertices;
               vertex_count = length slice_vertices;
               max_radius =
                 (if distances_from_axis = [] then 0
                  else fold max (tl distances_from_axis) (hd distances_from_axis));
               cross_sectional_area =
                 (if max_radius > 0 then pi * max_radius\<^sup>2 else 1 / 10 ^ 6);
               density = real vertex_count / cross_sectional_area
           in Some (density, slice_pos, vertex_count))
         else None)"

text \<open>The extreme point of a region: among the vertices whose projection is within
  \<open>region_tolerance\<close> of the region centre, the one of greatest (or least) projection;
  the global extreme when the region holds no vertex.\<close>

definition region_extreme ::
  "matrix \<Rightarrow> real list \<Rightarrow> real \<Rightarrow> real \<Rightarrow> bool \<Rightarrow> error + real list" where
  "region_extreme vs projections region_center region_tolerance upper =
     (let region_mask = map (\<lambda>p. \<bar>p - region_center\<bar> \<le> region_tolerance) projections
      in if np_sum_mask region_mask > 0 then
          (let candidates = masked vs region_mask;
               region_projections = masked projections region_mask
           in ebind (if upper then np_argmax region_projections
                     else np_argmin region_projections) (\<lambda>idx.
                Inr (candidates ! idx)))
         else
           ebind (if upper then np_argmax projections else np_argmin projections) (\<lambda>idx.
             Inr (vs ! idx)))"

text \<open>\<open>_detect_nose_and_tail_by_density\<close>.  Two of its local values have a name of
  their own: the projections of the vertices onto the primary axis, and the slices the
  loop keeps (density, position, vertex count).\<close>

definition project_vertices :: "matrix \<Rightarrow> real list \<Rightarrow> real list \<Rightarrow> real list" where
  "project_vertices vs c primary_axis = map (\<lambda>v. np_dot (vec_sub v c) primary_axis) vs"

definition density_slices ::
  "matrix \<Rightarrow> real list \<Rightarrow> real list \<Rightarrow> real \<Rightarrow> real \<Rightarrow> (real \<times> real \<times> nat) list" where
  "density_slices vs c primary_axis min_proj max_proj =
     (let num_slices = 40;
          slice_positions = np_linspace min_proj max_proj num_slices;
          slice_thickness = (max_proj - min_proj) / (real num_slices * (3 / 2))
      in List.map_filter
           (slice_entry vs c primary_axis (project_vertices vs c primary_axis) slice_thickness)
           slice_positions)"

definition detect_nose_and_tail_by_density ::
  "DensityLandmarkDetector \<Rightarrow> error + DensityLandmarkDetector" where
  "detect_nose_and_tail_by_density self =
     (case (principal_axes self, vertices self, centroid self) of
        (Some axes, Some vs, Some c) \<Rightarrow>
         (if axes = [] then Inl IndexError else
          let primary_axis = axes ! 0;
              projections = project_vertices vs c primary_axis
          in
          ebind (np_min projections) (\<lambda>min_proj.
          ebind (np_max projections) (\<lambda>max_proj.
            let slices = density_slices vs c primary_axis min_proj max_proj;
                slice_densities = map fst slices;
                slice_centers = map (\<lambda>s. fst (snd s)) slices
            in
            if length slice_densities < 10 then fallback_to_extremes self projections
            else
             (let window_size = max 3 (length slice_densities div 8);
                  smoothed_densities =
                    np_convolve_same slice_densities
                      (replicate window_size (1 / real window_size));
                  density_gradients = np_diff smoothed_densities
              in
              ebind (np_argmax density_gradients) (\<lambda>max_gradient_idx.
                let tail_body_transition_pos = slice_centers ! max_gradient_idx;
                    tail_side_mask = map (\<lambda>s. s \<le> tail_body_transition_pos) slice_centers;
                    body_side_mask = map (\<lambda>s. s > tail_body_transition_pos) slice_centers
                in
                if np_sum_mask tail_side_mask > 2 \<and> np_sum_mask body_side_mask > 2 then
                  ebind (np_mean (masked smoothed_densities tail_side_mask)) (\<lambda>tail_side_avg_density.
                  ebind (np_mean (masked smoothed_densities body_side_mask)) (\<lambda>body_side_avg_density.
                  ebind (np_mean (masked slice_centers tail_side_mask)) (\<lambda>tail_side_center.
                  ebind (np_mean (masked slice_centers body_side_mask)) (\<lambda>body_side_center.
                    let tail_region_center =
                          (if tail_side_avg_density < body_side_avg_density
                           then tail_side_center else body_side_center);
                        head_region_center =
                          (if tail_side_avg_density < body_side_avg_density
                           then body_side_center else tail_side_center);
                        region_tolerance = (max_proj - min_proj) * (1 / 4)
                    in
                    ebind (region_extreme vs projections head_region_center region_tolerance
                             (head_region_center > tail_region_center)) (\<lambda>nose_point.
                    ebind (region_extreme vs projections tail_region_center region_tolerance
                             (\<not> tail_region_center < head_region_center)) (\<lambda>tail_point.
                      let tail_attachment_3d =
                            vec_add c (vec_scale tail_body_transition_pos primary_axis);
                          distances_to_attachment =
                            map (\<lambda>v. np_norm (vec_sub v tail_attachment_3d)) vs
                      in
                      ebind (np_argmin distances_to_attachment) (\<lambda>attachment_idx.
                        Inr (self\<lparr>landmarks :=
                               AList.update ''tail_attachment'' (vs ! attachment_idx)
                                 (AList.update ''tail_tip'' tail_point
                                   (AList.update ''nose'' nose_point
                                     (landmarks self)))\<rparr>))))))))
                else fallback_to_extremes self projections)))))
      | _ \<Rightarrow> Inl ValueError)"

text \<open>\<open>_format_results\<close> and \<open>detect_landmarks\<close>; the \<open>except\<close> clause of the latter
  logs and re-raises, so an exception of a step is the result.\<close>

definition format_results :: "DensityLandmarkDetector \<Rightarrow> detection_results" where
  "format_results self =
     \<lparr>res_landmarks = landmarks self,
      res_metadata =
        \<lparr>detection_method = ''density_analysis'',
         coordinate_system = ''mesh_relative'',
         md_centroid = centroid self,
         md_principal_axes = principal_axes self,
         landmarks_detected = map fst (landmarks self),
         vertex_count = (case vertices self of None \<Rightarrow> 0 | Some vs \<Rightarrow> length vs)\<rparr>\<rparr>"

definition detect_landmarks ::
  "(matrix \<Rightarrow> error + real list \<times> matrix) \<Rightarrow> DensityLandmarkDetector \<Rightarrow> matrix \<Rightarrow>
   nat list list option \<Rightarrow> error + detection_results" where
  "detect_landmarks eigh self0 vertices_arg faces_arg =
     (let self = self0\<lparr>vertices := Some vertices_arg, faces := faces_arg, landmarks := []\<rparr>
      in ebind (analyze_mesh_geometry eigh self) (\<lambda>self.
         ebind (detect_nose_and_tail_by_density self) (\<lambda>self.
           Inr (format_results self))))"

definition new_detector :: DensityLandmarkDetector where
  "new_detector =
     \<lparr>vertices = None, faces = None, centroid = None, principal_axes = None,
      landmarks = []\<rparr>"

section \<open>The eigen-decomposition, as far as the analysis relies on it\<close>

text \<open>
  What \<open>numpy.linalg.eigh\<close> returns for a real symmetric 3 by 3 matrix \<open>C\<close>, in exact
  arithmetic: three eigenvalues \<open>w\<close> and a matrix \<open>V\<close> whose columns are orthonormal
  eigenvectors, column \<open>i\<close> for \<open>w[i]\<close>.  (That the eigenvalues are ascending is not
  used: the analysis sorts them itself.)
\<close>

definition column :: "matrix \<Rightarrow> nat \<Rightarrow> real list" where
  "column V j = map (\<lambda>row. row ! j) V"

definition eigh_shape :: "real list \<Rightarrow> matrix \<Rightarrow> bool" where
  "eigh_shape w V \<longleftrightarrow> length w = 3 \<and> length V = 3 \<and> list_all (\<lambda>row. length row = 3) V"

definition eigh_contract :: "matrix \<Rightarrow> real list \<Rightarrow> matrix \<Rightarrow> bool" where
  "eigh_contract C w V \<longleftrightarrow>
     eigh_shape w V
     \<and> (\<forall>i<3. \<forall>j<3. np_dot (column V i) (column V j) = (if i = j then 1 else 0))
     \<and> (\<forall>i<3. mat_vec C (column V i) = vec_scale (w ! i) (column V i))"

text \<open>An eigen-solver for the inputs of the examples: on a diagonal 3 by 3 matrix with
  ascending diagonal it returns the diagonal and the identity, as \<open>eigh\<close> does; it
  gives up on every other matrix.\<close>

definition eigh_diagonal :: "matrix \<Rightarrow> error + real list \<times> matrix" where
  "eigh_diagonal m =
     (case m of
        [[a, b0, c0], [d0, e, f0], [g0, h0, i]] \<Rightarrow>
          if b0 = 0 \<and> c0 = 0 \<and> d0 = 0 \<and> f0 = 0 \<and> g0 = 0 \<and> h0 = 0 \<and> a \<le> e \<and> e \<le> i
          then Inr ([a, e, i], eye3) else Inl LinAlgError
      | _ \<Rightarrow> Inl LinAlgError)"

text \<open>The covariance matrix that \<open>_analyze_mesh_geometry\<close> hands to \<open>eigh\<close>.\<close>

definition covariance_of :: "matrix \<Rightarrow> error + matrix" where
  "covariance_of vs =
     ebind (np_mean_axis0 vs) (\<lambda>c. np_cov (np_transpose (map (\<lambda>v. vec_sub v c) vs)))"

text \<open>Point clouds of the examples: two points, and three collinear points, on the
  \<open>z\<close> axis.\<close>

definition two_points :: matrix where
  "two_points = [[0, 0, 0], [0, 0, 1]]"

definition three_collinear_points :: matrix where
  "three_collinear_points = [[0, 0, 0], [0, 0, 1], [0, 0, 2]]"

text \<open>Six points on the coordinate axes, a cloud that is not degenerate.\<close>

definition octahedron_points :: matrix where
  "octahedron_points =
     [[1, 0, 0], [- 1, 0, 0], [0, 2, 0], [0, - 2, 0], [0, 0, 3], [0, 0, - 3]]"

section \<open>GeometricLandmarkDetector (ISI-Integration/src/python/geometric\_landmark\_detector.py)\<close>

text \<open>
  The second detector has the same fields as the first, so it uses the same record.
  \<open>sklearn.decomposition.PCA\<close> is a library class: \<open>pca\<close> below stands for
  \<open>PCA(n_components=3).fit\<close>, from the centred vertices to \<open>components_\<close> and
  \<open>explained_variance_ratio_\<close>, or to an exception.  The ear, feet, whisker and derived
  landmark steps are commented out in \<open>detect_landmarks\<close> and are not modelled.  The
  analysis formats \<open>self.principal_axes[0]\<close>, \<open>[1]\<close>, \<open>[2]\<close> for the log and reads
  \<open>explained_variance[0]\<close>, which raise \<open>IndexError\<close> when out of range.

  \<open>vertices.shape[1]\<close>: the length of the rows; the array of no rows has shape \<open>(0,)\<close>,
  for which the index is out of range.
\<close>

definition shape1 :: "matrix \<Rightarrow> error + nat" where
  "shape1 vs = (case vs of [] \<Rightarrow> Inl IndexError | r # _ \<Rightarrow> Inr (length r))"

definition geo_analyze_mesh_geometry ::
  "(matrix \<Rightarrow> error + matrix \<times> real list) \<Rightarrow> DensityLandmarkDetector \<Rightarrow>
   error + DensityLandmarkDetector" where
  "geo_analyze_mesh_geometry pca self =
     (case vertices self of
        None \<Rightarrow> Inl ValueError
      | Some vs \<Rightarrow>
         ebind (np_mean_axis0 vs) (\<lambda>c.
           let centered_vertices = map (\<lambda>v. vec_sub v c) vs in
           ebind (pca centered_vertices) (\<lambda>(components, explained_variance).
             if length components < 3 \<or> explained_variance = [] then Inl IndexError
             else Inr (self\<lparr>centroid := Some c, principal_axes := Some components\<rparr>))))"

text \<open>The nested function \<open>calculate_sharpness\<close>: the mean cross-section radius at
  three sample points inward from an extreme, and the mean of the differences of these
  radii.  The direction is \<open>None\<close> when the two extremes coincide: NumPy then divides
  zero by zero, every comparison with the resulting NaN is false, no slice holds a
  vertex, and the function returns 0.\<close>

definition sharpness_sample ::
  "matrix \<Rightarrow> real \<Rightarrow> real list \<Rightarrow> real list \<Rightarrow> nat \<Rightarrow> real option" where
  "sharpness_sample vs mesh_size extreme_point axis_direction i =
     (let step_size = mesh_size * (2 / 100);
          sample_point = vec_add extreme_point (vec_scale (step_size * real i) axis_direction);
          slice_thickness = mesh_size * (1 / 100);
          projected_dists = map (\<lambda>v. \<bar>np_dot (vec_sub v sample_point) axis_direction\<bar>) vs;
          slice_vertices = masked vs (map (\<lambda>d. d \<le> slice_thickness) projected_dists)
      in if length slice_vertices > 0 then
          (let distances_from_axis =
                 map (\<lambda>v. let to_vertex = vec_sub v sample_point;
                              projected = vec_scale (np_dot to_vertex axis_direction)
                                            axis_direction;
                              perpendicular = vec_sub to_vertex projected
                          in np_norm perpendicular) slice_vertices
           in Some (sum_list distances_from_axis / real (length distances_from_axis)))
         else None)"

definition calculate_sharpness ::
  "matrix \<Rightarrow> real \<Rightarrow> real list \<Rightarrow> real list option \<Rightarrow> real" where
  "calculate_sharpness vs mesh_size extreme_point axis_direction =
     (case axis_direction of
        None \<Rightarrow> 0
      | Some d \<Rightarrow>
         (let sharpness_samples =
                List.map_filter (sharpness_sample vs mesh_size extreme_point d) [1, 2, 3]
          in if length sharpness_samples \<ge> 2
             then sum_list (np_diff sharpness_samples) / real (length (np_diff sharpness_samples))
             else 0))"

definition direction_between :: "real list \<Rightarrow> real list \<Rightarrow> real list option" where
  "direction_between a b =
     (if np_norm (vec_sub b a) = 0 then None
      else Some (vec_div (vec_sub b a) (np_norm (vec_sub b a))))"

definition geo_detect_nose_and_tail ::
  "DensityLandmarkDetector \<Rightarrow> error + DensityLandmarkDetector" where
  "geo_detect_nose_and_tail self =
     (case (principal_axes self, vertices self, centroid self) of
        (Some axes, Some vs, Some c) \<Rightarrow>
         (if axes = [] then Inl IndexError else
          let primary_axis = axes ! 0;
              projections = map (\<lambda>v. np_dot (vec_sub v c) primary_axis) vs
          in
          ebind (np_argmin projections) (\<lambda>min_proj_idx.
          ebind (np_argmax projections) (\<lambda>max_proj_idx.
            let extreme1_point = vs ! min_proj_idx;
                extreme2_point = vs ! max_proj_idx;
                mesh_size =
                  np_norm (vec_sub (map (\<lambda>col. fold max (tl col) (hd col)) (np_transpose vs))
                                   (map (\<lambda>col. fold min (tl col) (hd col)) (np_transpose vs)));
                search_radius = mesh_size * (3 / 100);
                nearby1_count =
                  np_sum_mask (map (\<lambda>v. np_norm (vec_sub v extreme1_point) \<le> search_radius) vs);
                nearby2_count =
                  np_sum_mask (map (\<lambda>v. np_norm (vec_sub v extreme2_point) \<le> search_radius) vs);
                sharpness1 = calculate_sharpness vs mesh_size extreme1_point
                               (direction_between extreme1_point extreme2_point);
                sharpness2 = calculate_sharpness vs mesh_size extreme2_point
                               (direction_between extreme2_point extreme1_point);
                combined_score1 = - real nearby1_count + sharpness1 * 1000;
                combined_score2 = - real nearby2_count + sharpness2 * 1000;
                nose_point = (if combined_score1 > combined_score2
                              then extreme1_point else extreme2_point);
                tail_point = (if combined_score1 > combined_score2
                              then extreme2_point else extreme1_point);
                nose_density = (if nose_point = extreme1_point
                                then nearby1_count else nearby2_count);
                tail_density = (if nose_point = extreme1_point
                                then nearby2_count else nearby1_count);
                nose_point' = (if nose_density > tail_density then tail_point else nose_point);
                tail_point' = (if nose_density > tail_density then nose_point else tail_point);
                tail_attachment =
                  vec_add nose_point' (vec_scale (7 / 10) (vec_sub tail_point' nose_point'))
            in Inr (self\<lparr>landmarks :=
                      AList.update ''tail_attachment'' tail_attachment
                        (AList.update ''tail_tip'' tail_point'
                          (AList.update ''nose'' nose_point' (landmarks self)))\<rparr>))))
      | _ \<Rightarrow> Inl ValueError)"

text \<open>\<open>_format_results\<close> keeps the landmarks that are a non-empty list of three
  finite coordinates (over the reals every coordinate is finite).\<close>

definition geo_format_results :: "DensityLandmarkDetector \<Rightarrow> detection_results" where
  "geo_format_results self =
     (let formatted_landmarks = filter (\<lambda>(key, val). length val = 3) (landmarks self)
      in \<lparr>res_landmarks = formatted_landmarks,
          res_metadata =
            \<lparr>detection_method = ''pure_geometric'',
             coordinate_system = ''mesh_relative'',
             md_centroid = centroid self,
             md_principal_axes = principal_axes self,
             landmarks_detected = map fst formatted_landmarks,
             vertex_count = (case vertices self of None \<Rightarrow> 0 | Some vs \<Rightarrow> length vs)\<rparr>\<rparr>)"

text \<open>\<open>detect_landmarks\<close>: the guard on the shape comes first and is outside the
  \<open>try\<close>; the \<open>except\<close> clause logs and re-raises.\<close>

definition geo_detect_landmarks ::
  "(matrix \<Rightarrow> error + matrix \<times> real list) \<Rightarrow> DensityLandmarkDetector \<Rightarrow> matrix \<Rightarrow>
   nat list list option \<Rightarrow> error + detection_results" where
  "geo_detect_landmarks pca self0 vertices_arg faces_arg =
     ebind (shape1 vertices_arg) (\<lambda>n.
       if n \<noteq> 3 then Inl ValueError
       else
        (let self = self0\<lparr>vertices := Some vertices_arg, faces := faces_arg, landmarks := []\<rparr>
         in ebind (geo_analyze_mesh_geometry pca self) (\<lambda>self.
            ebind (geo_detect_nose_and_tail self) (\<lambda>self.
              Inr (geo_format_results self)))))"

text \<open>An array of shape \<open>(2, 2)\<close>.\<close>

definition planar_points :: matrix where
  "planar_points = [[0, 0], [1, 1]]"

text \<open>A stand-in for the PCA of the library in runs that never reach it, and two points
  whose covariance matrix is not diagonal.\<close>

definition pca_unavailable :: "matrix \<Rightarrow> error + matrix \<times> real list" where
  "pca_unavailable m = Inl LinAlgError"

definition diagonal_points :: matrix where
  "diagonal_points = [[0, 0, 0], [1, 1, 0]]"

section \<open>The tolerance band of the parallel and antiparallel branches\<close>









section \<open>Preconditions of the round trip\<close>




section \<open>Auxiliary facts\<close>

lemma in_range_bounded: "\<bar>a\<bar> \<le> 8 \<Longrightarrow> in_range a"
proof -
  assume a: "\<bar>a\<bar> \<le> 8"
  have "(8::real) \<le> 10 ^ 10" by simp
  with a show ?thesis unfolding in_range_def by linarith
qed

lemma in_range_small [simp]:
  "in_range 0" "in_range 1" "in_range (- 1)" "in_range 8" "in_range (- 8)"
  by (simp_all add: in_range_def)

lemma sumsq_pos:
  fixes a b c :: real
  assumes "a \<noteq> 0 \<or> b \<noteq> 0 \<or> c \<noteq> 0"
  shows "0 < a\<^sup>2 + b\<^sup>2 + c\<^sup>2"
  using assms
  by (metis add_pos_nonneg add_nonneg_pos zero_less_power2 zero_le_power2 add_nonneg_nonneg)

lemma abs_div_norm_le:
  fixes a b c :: real
  assumes "0 < a\<^sup>2 + b\<^sup>2 + c\<^sup>2"
  shows "\<bar>a / sqrt (a\<^sup>2 + b\<^sup>2 + c\<^sup>2)\<bar> \<le> 1"
    and "\<bar>b / sqrt (a\<^sup>2 + b\<^sup>2 + c\<^sup>2)\<bar> \<le> 1"
    and "\<bar>c / sqrt (a\<^sup>2 + b\<^sup>2 + c\<^sup>2)\<bar> \<le> 1"
proof -
  let ?m = "sqrt (a\<^sup>2 + b\<^sup>2 + c\<^sup>2)"
  have m: "0 < ?m" using assms by simp
  have "\<bar>a\<bar> \<le> ?m" by (rule real_le_rsqrt) simp
  thus "\<bar>a / ?m\<bar> \<le> 1" using m by simp
  have "\<bar>b\<bar> \<le> ?m" by (rule real_le_rsqrt) simp
  thus "\<bar>b / ?m\<bar> \<le> 1" using m by simp
  have "\<bar>c\<bar> \<le> ?m" by (rule real_le_rsqrt) simp
  thus "\<bar>c / ?m\<bar> \<le> 1" using m by simp
qed

lemma normalize_vector_ok:
  assumes "vx v \<noteq> 0 \<or> vy v \<noteq> 0 \<or> vz v \<noteq> 0"
  shows "normalize_vector v =
     Inr \<lparr>vx = vx v / sqrt ((vx v)\<^sup>2 + (vy v)\<^sup>2 + (vz v)\<^sup>2),
          vy = vy v / sqrt ((vx v)\<^sup>2 + (vy v)\<^sup>2 + (vz v)\<^sup>2),
          vz = vz v / sqrt ((vx v)\<^sup>2 + (vy v)\<^sup>2 + (vz v)\<^sup>2)\<rparr>"
proof -
  let ?m = "sqrt ((vx v)\<^sup>2 + (vy v)\<^sup>2 + (vz v)\<^sup>2)"
  have pos: "0 < (vx v)\<^sup>2 + (vy v)\<^sup>2 + (vz v)\<^sup>2"
    using assms by (rule sumsq_pos)
  hence m: "?m \<noteq> 0" by simp
  have r: "in_range (vx v / ?m)" "in_range (vy v / ?m)" "in_range (vz v / ?m)"
    using abs_div_norm_le[OF pos] by (auto intro!: in_range_bounded)
  show ?thesis using m r
    by (simp add: normalize_vector_def Let_def Vector3D_new_def)
qed


lemma normalize_vector_zero:
  "vx v = 0 \<Longrightarrow> vy v = 0 \<Longrightarrow> vz v = 0 \<Longrightarrow> normalize_vector v = Inl ValueError"
  by (simp add: normalize_vector_def)


lemma axis_target_simps:
  "axis_target ''x'' = Inr \<lparr>vx = 1, vy = 0, vz = 0\<rparr>"
  "axis_target ''y'' = Inr \<lparr>vx = 0, vy = 1, vz = 0\<rparr>"
  "axis_target ''z'' = Inr \<lparr>vx = 0, vy = 0, vz = 1\<rparr>"
  by (simp_all add: axis_target_def Vector3D_new_def)


section \<open>The per-axis alignment error\<close>



lemma clamp_unit: "\<bar>d::real\<bar> \<le> 1 \<Longrightarrow> max (- 1) (min 1 d) = d"
  by (auto simp: max_def min_def)

lemma np_norm3: "np_norm [a, b, c] = sqrt (a\<^sup>2 + b\<^sup>2 + c\<^sup>2)"
  by (simp add: np_norm_def power2_eq_square)


lemma calculate_alignment_error_spec:
  assumes "calculate_alignment_error v a = Inr e"
  shows "e = spec_angular_deviation [vx v, vy v, vz v] a"
proof -
  have nz: "vx v \<noteq> 0 \<or> vy v \<noteq> 0 \<or> vz v \<noteq> 0"
  proof (rule ccontr)
    assume "\<not> ?thesis"
    hence "normalize_vector v = Inl ValueError" by (simp add: normalize_vector_zero)
    with assms show False by (simp add: calculate_alignment_error_def)
  qed
  have ax: "a = ''x'' \<or> a = ''y'' \<or> a = ''z''"
  proof (rule ccontr)
    assume "\<not> ?thesis"
    hence "axis_target a = Inl ValueError" by (simp add: axis_target_def)
    with assms show False
      by (simp add: calculate_alignment_error_def split: sum.splits)
  qed
  have pos: "0 < (vx v)\<^sup>2 + (vy v)\<^sup>2 + (vz v)\<^sup>2" using nz by (rule sumsq_pos)
  note b = abs_div_norm_le[OF pos]
  note n = normalize_vector_ok[OF nz]
  from ax show ?thesis
  proof (elim disjE)
    assume a: "a = ''x''"
    show ?thesis using assms clamp_unit[OF b(1)]
      by (simp add: a calculate_alignment_error_def n axis_target_simps
          spec_angular_deviation_def spec_axis_def np_norm3 vec_div_def)
  next
    assume a: "a = ''y''"
    show ?thesis using assms clamp_unit[OF b(2)]
      by (simp add: a calculate_alignment_error_def n axis_target_simps
          spec_angular_deviation_def spec_axis_def np_norm3 vec_div_def)
  next
    assume a: "a = ''z''"
    show ?thesis using assms clamp_unit[OF b(3)]
      by (simp add: a calculate_alignment_error_def n axis_target_simps
          spec_angular_deviation_def spec_axis_def np_norm3 vec_div_def)
  qed
qed

lemma apply_transformation4:
  assumes "apply_transformation m [a, b, c, d] = Inr tp"
  shows "\<exists>a' b' c' d'. tp = [a', b', c', d'] \<and> transform_point m a = Inr a'
      \<and> transform_point m b = Inr b' \<and> transform_point m c = Inr c'
      \<and> transform_point m d = Inr d'"
  using assms by (auto split: sum.splits)

lemma vector_between_Inr:
  "vector_between a b = Inr w \<Longrightarrow> [vx w, vy w, vz w] = difference b a"
  by (auto simp: vector_between_def Vector3D_new_def difference_def split: if_splits)

lemma vector_between_same: "vector_between a a = Inr \<lparr>vx = 0, vy = 0, vz = 0\<rparr>"
  by (simp add: vector_between_def Vector3D_new_def)

lemma calculate_alignment_error_zero:
  "calculate_alignment_error \<lparr>vx = 0, vy = 0, vz = 0\<rparr> a = Inl ValueError"
  by (simp add: calculate_alignment_error_def normalize_vector_zero)

lemma transform_point_eye4:
  "valid_vector v \<Longrightarrow> transform_point eye4 v = Inr v"
  by (simp add: transform_point_def eye4_def mat_vec_def Vector3D_new_def valid_vector_def)

lemma error_along_axis:
  "calculate_alignment_error \<lparr>vx = 1, vy = 0, vz = 0\<rparr> ''x'' = Inr 0"
  "calculate_alignment_error \<lparr>vx = 0, vy = 0, vz = 1\<rparr> ''z'' = Inr 0"
  "calculate_alignment_error \<lparr>vx = 0, vy = 1, vz = 0\<rparr> ''x'' = Inr 90"
  by (simp_all add: calculate_alignment_error_def normalize_vector_def Vector3D_new_def
      axis_target_simps degrees_def)

lemma verify_aligned_landmarks:
  "verify_alignment aligned_landmarks eye4 default_parameters = Inr aligned_result"
  by (simp add: verify_alignment_def aligned_landmarks_def default_parameters_def
      transform_point_eye4 valid_vector_def LandmarkSet_new_def vector_between_def
      Vector3D_new_def error_along_axis AlignmentResult_new_def aligned_result_def)

section \<open>What verify\_alignment computes\<close>

text \<open>
  Claim C6.  Whenever \<open>verify_alignment\<close> returns a result, the nose-tail error and the
  ear error it reports are the specification's undirected angular deviation
  \<open>degrees(acos(|normalize(v) . axis|))\<close> of the transformed nose-to-tail and
  left-ear-to-right-ear vectors from their target axes, the overall error is the
  maximum of the two, and the result is valid exactly when the overall error is at most
  the alignment tolerance of the parameters.
\<close>

theorem verify_alignment_computes_spec_errors:
  assumes "verify_alignment l m p = Inr r"
  shows "\<exists>n t le re.
           apply_transformation m [nose l, tail l, left_ear l, right_ear l]
             = Inr [n, t, le, re]
         \<and> alignment_errors r ''nose_tail_alignment''
             = Some (spec_angular_deviation (difference t n) (nose_tail_axis p))
         \<and> alignment_errors r ''ear_alignment''
             = Some (spec_angular_deviation (difference re le) (ear_alignment_axis p))
         \<and> alignment_errors r ''overall_error''
             = Some (max (spec_angular_deviation (difference t n) (nose_tail_axis p))
                         (spec_angular_deviation (difference re le) (ear_alignment_axis p)))
         \<and> is_valid r
             = (max (spec_angular_deviation (difference t n) (nose_tail_axis p))
                    (spec_angular_deviation (difference re le) (ear_alignment_axis p))
                \<le> alignment_tolerance p)"
proof -
  from assms obtain tp where
    tp: "apply_transformation m [nose l, tail l, left_ear l, right_ear l] = Inr tp"
    by (auto simp: verify_alignment_def split: sum.splits)
  from apply_transformation4[OF tp] obtain n t le re where l4: "tp = [n, t, le, re]"
    by blast
  from assms tp l4 obtain ntv ev e1 e2 where
    ntv: "vector_between n t = Inr ntv" and ev: "vector_between le re = Inr ev"
    and e1: "calculate_alignment_error ntv (nose_tail_axis p) = Inr e1"
    and e2: "calculate_alignment_error ev (ear_alignment_axis p) = Inr e2"
    and r: "AlignmentResult_new m
              [''nose_tail_alignment'' \<mapsto> e1, ''ear_alignment'' \<mapsto> e2,
               ''overall_error'' \<mapsto> max e1 e2]
              (max e1 e2 \<le> alignment_tolerance p) = Inr r"
    by (auto simp: verify_alignment_def LandmarkSet_new_def Let_def split: sum.splits)
  have s1: "e1 = spec_angular_deviation (difference t n) (nose_tail_axis p)"
    using calculate_alignment_error_spec[OF e1] vector_between_Inr[OF ntv] by simp
  have s2: "e2 = spec_angular_deviation (difference re le) (ear_alignment_axis p)"
    using calculate_alignment_error_spec[OF e2] vector_between_Inr[OF ev] by simp
  from r have "r = \<lparr>transformation_matrix = m,
       alignment_errors = [''nose_tail_alignment'' \<mapsto> e1, ''ear_alignment'' \<mapsto> e2,
                           ''overall_error'' \<mapsto> max e1 e2],
       is_valid = (max e1 e2 \<le> alignment_tolerance p)\<rparr>"
    by (simp add: AlignmentResult_new_def split: if_splits)
  hence "alignment_errors r ''nose_tail_alignment'' = Some e1"
    "alignment_errors r ''ear_alignment'' = Some e2"
    "alignment_errors r ''overall_error'' = Some (max e1 e2)"
    "is_valid r = (max e1 e2 \<le> alignment_tolerance p)"
    by simp_all
  with tp l4 s1 s2 show ?thesis by simp
qed

theorem verify_alignment_computes_spec_errors_witness:
  "verify_alignment aligned_landmarks eye4 default_parameters = Inr aligned_result
   \<and> (\<exists>n t le re.
         apply_transformation eye4
           [nose aligned_landmarks, tail aligned_landmarks, left_ear aligned_landmarks,
            right_ear aligned_landmarks] = Inr [n, t, le, re]
       \<and> alignment_errors aligned_result ''nose_tail_alignment''
           = Some (spec_angular_deviation (difference t n) (nose_tail_axis default_parameters))
       \<and> alignment_errors aligned_result ''ear_alignment''
           = Some (spec_angular_deviation (difference re le)
                     (ear_alignment_axis default_parameters))
       \<and> alignment_errors aligned_result ''overall_error''
           = Some (max (spec_angular_deviation (difference t n)
                          (nose_tail_axis default_parameters))
                       (spec_angular_deviation (difference re le)
                          (ear_alignment_axis default_parameters)))
       \<and> is_valid aligned_result
           = (max (spec_angular_deviation (difference t n) (nose_tail_axis default_parameters))
                  (spec_angular_deviation (difference re le)
                     (ear_alignment_axis default_parameters))
              \<le> alignment_tolerance default_parameters))"
  by (rule conjI [OF verify_aligned_landmarks
        verify_alignment_computes_spec_errors [OF verify_aligned_landmarks]])

section \<open>The scenario of compute\_alignment\<close>





section \<open>Ear landmarks\<close>

text \<open>
  Claim C9, as amended.  The ear landmarks are required: constructing a \<open>LandmarkSet\<close>
  without \<open>left_ear\<close> or without \<open>right_ear\<close> is refused by validation, only
  \<open>face_center\<close> may be left out; and \<open>verify_alignment\<close> has no zero ear error for
  missing ears: it always measures the ear vector, so it raises an error whenever the
  two ear landmarks coincide.
\<close>

theorem ear_landmarks_required:
  "LandmarkSet_new n t None r f = Inl ValidationError
   \<and> LandmarkSet_new n t l None f = Inl ValidationError
   \<and> LandmarkSet_new (Some n') (Some t') (Some l') (Some r') None
       = Inr \<lparr>nose = n', tail = t', left_ear = l', right_ear = r', face_center = None\<rparr>
   \<and> (left_ear ls = right_ear ls \<longrightarrow> isl (verify_alignment ls m p))"
proof (intro conjI impI)
  show "LandmarkSet_new n t None r f = Inl ValidationError"
    by (simp add: LandmarkSet_new_def split: option.splits)
  show "LandmarkSet_new n t l None f = Inl ValidationError"
    by (simp add: LandmarkSet_new_def split: option.splits)
  show "LandmarkSet_new (Some n') (Some t') (Some l') (Some r') None
       = Inr \<lparr>nose = n', tail = t', left_ear = l', right_ear = r', face_center = None\<rparr>"
    by (simp add: LandmarkSet_new_def)
  assume same: "left_ear ls = right_ear ls"
  show "isl (verify_alignment ls m p)"
  proof (cases "verify_alignment ls m p")
    case (Inl e)
    then show ?thesis by simp
  next
    case (Inr res)
    then obtain tp where
      tp: "apply_transformation m [nose ls, tail ls, left_ear ls, right_ear ls] = Inr tp"
      by (auto simp: verify_alignment_def split: sum.splits)
    from apply_transformation4[OF tp] same obtain a b c where l4: "tp = [a, b, c, c]"
      by auto
    from Inr tp l4 obtain e2 where
      "calculate_alignment_error \<lparr>vx = 0, vy = 0, vz = 0\<rparr> (ear_alignment_axis p) = Inr e2"
      by (auto simp: verify_alignment_def LandmarkSet_new_def Let_def vector_between_same
          split: sum.splits)
    thus ?thesis by (simp add: calculate_alignment_error_zero)
  qed
qed

theorem ear_landmarks_required_witness:
  "left_ear coincident_ears = right_ear coincident_ears
   \<and> isl (verify_alignment coincident_ears eye4 default_parameters)
   \<and> verify_alignment coincident_ears eye4 default_parameters = Inl ValueError"
proof -
  have same: "left_ear coincident_ears = right_ear coincident_ears"
    by (simp add: coincident_ears_def)
  have "isl (verify_alignment coincident_ears eye4 default_parameters)"
    using ear_landmarks_required [of None None None None None
        "\<lparr>vx = 0, vy = 0, vz = 0\<rparr>" "\<lparr>vx = 0, vy = 0, vz = 0\<rparr>" "\<lparr>vx = 0, vy = 0, vz = 0\<rparr>"
        "\<lparr>vx = 0, vy = 0, vz = 0\<rparr>" coincident_ears eye4 default_parameters] same
    by blast
  moreover have "verify_alignment coincident_ears eye4 default_parameters = Inl ValueError"
    by (simp add: verify_alignment_def coincident_ears_def default_parameters_def
        transform_point_eye4 valid_vector_def LandmarkSet_new_def vector_between_def
        Vector3D_new_def error_along_axis calculate_alignment_error_zero)
  ultimately show ?thesis using same by blast
qed

text \<open>The claim as stated fails: a landmark set without ear points is not
  constructible.\<close>

theorem ear_landmarks_required_counterexample:
  "LandmarkSet_new (Some \<lparr>vx = 0, vy = 0, vz = 5\<rparr>) (Some \<lparr>vx = 0, vy = 0, vz = - 5\<rparr>)
     None None None = Inl ValidationError"
  by (simp add: LandmarkSet_new_def)

section \<open>Rotation between parallel and antiparallel vectors\<close>







lemma sumsq_pos':
  fixes a b c :: real
  assumes "a \<noteq> 0 \<or> b \<noteq> 0 \<or> c \<noteq> 0"
  shows "0 < a * a + b * b + c * c"
  using sumsq_pos[OF assms] by (simp add: power2_eq_square)






section \<open>The principal axes\<close>

lemma upt3: "[0..<3] = [0, 1, 2]" by (simp add: upt_rec)

lemma np_argsort3:
  "np_argsort [a, b, c] \<in> {[0, 1, 2], [0, 2, 1], [1, 0, 2], [1, 2, 0], [2, 0, 1], [2, 1, 0]}
   \<and> sorted (map (\<lambda>i. [a, b, c] ! i) (np_argsort [a, b, c]))"
  by (auto simp: np_argsort_def upt3)

lemma np_transpose3:
  "np_transpose [[a0, a1, a2], [b0, b1, b2], [c0, c1, c2]] =
     [[a0, b0, c0], [a1, b1, c1], [a2, b2, c2]]"
  by (simp add: np_transpose_def upt3)

lemma eigh_contract_cases:
  assumes "eigh_contract C w V"
  obtains w0 w1 w2 a0 a1 a2 b0 b1 b2 c0 c1 c2 where
    "w = [w0, w1, w2]" "V = [[a0, a1, a2], [b0, b1, b2], [c0, c1, c2]]"
proof -
  from assms have lw: "length w = 3" and lv: "length V = 3"
    and rows: "list_all (\<lambda>row. length row = 3) V"
    by (simp_all add: eigh_contract_def eigh_shape_def)
  from lw obtain w0 w1 w2 where w: "w = [w0, w1, w2]"
    by (auto simp: length_Suc_conv eval_nat_numeral)
  from lv obtain r0 r1 r2 where v: "V = [r0, r1, r2]"
    by (auto simp: length_Suc_conv eval_nat_numeral)
  from rows v obtain a0 a1 a2 b0 b1 b2 c0 c1 c2 where
    "r0 = [a0, a1, a2]" "r1 = [b0, b1, b2]" "r2 = [c0, c1, c2]"
    by (auto simp: length_Suc_conv eval_nat_numeral)
  with w v that show thesis by blast
qed


lemma np_argsort3_obtain:
  obtains i j k where "np_argsort [a, b, c] = [i, j, k]" "i < 3" "j < 3" "k < 3"
    "i \<noteq> j" "i \<noteq> k" "j \<noteq> k" "[a, b, c] ! i \<le> [a, b, c] ! j" "[a, b, c] ! j \<le> [a, b, c] ! k"
proof -
  from np_argsort3[of a b c] have
    m: "np_argsort [a, b, c] \<in> {[0, 1, 2], [0, 2, 1], [1, 0, 2], [1, 2, 0], [2, 0, 1], [2, 1, 0]}"
    and s: "sorted (map (\<lambda>i. [a, b, c] ! i) (np_argsort [a, b, c]))" by blast+
  from m obtain i j k where ijk: "np_argsort [a, b, c] = [i, j, k]" "i < 3" "j < 3" "k < 3"
    "i \<noteq> j" "i \<noteq> k" "j \<noteq> k" by auto
  from s ijk(1) have "[a, b, c] ! i \<le> [a, b, c] ! j" "[a, b, c] ! j \<le> [a, b, c] ! k"
    by simp_all
  with ijk that show thesis by blast
qed

lemma select_columns:
  "np_transpose (map (\<lambda>row. map (\<lambda>i. row ! i) [k, j, i]) [r0, r1, r2]) =
     [column [r0, r1, r2] k, column [r0, r1, r2] j, column [r0, r1, r2] i]"
  by (simp add: np_transpose_def upt3 column_def)

lemma analyze_mesh_geometry_Inr:
  assumes "analyze_mesh_geometry eigh self = Inr self'"
  obtains vs c C w V where "vertices self = Some vs" "np_mean_axis0 vs = Inr c"
    "covariance_of vs = Inr C" "eigh C = Inr (w, V)"
    "self' = self\<lparr>centroid := Some c,
        principal_axes := Some (np_transpose
           (map (\<lambda>row. map (\<lambda>i. row ! i) (rev (np_argsort w))) V))\<rparr>"
  using assms
  by (auto simp: analyze_mesh_geometry_def covariance_of_def ebind_def Let_def
      split: option.splits sum.splits prod.splits if_splits)

lemma lt3: "(\<forall>i<3. P (i::nat)) \<longleftrightarrow> P 0 \<and> P 1 \<and> P 2"
proof -
  have "\<And>i::nat. i < 3 \<longleftrightarrow> i = 0 \<or> i = 1 \<or> i = 2" by auto
  thus ?thesis by auto
qed

lemma eigh_diagonal_Inr:
  assumes "eigh_diagonal C = Inr (w, V)"
  obtains a e i where "C = [[a, 0, 0], [0, e, 0], [0, 0, i]]" "w = [a, e, i]" "V = eye3"
  using assms
  by (auto simp: eigh_diagonal_def split: list.splits if_splits)

lemma eigh_diagonal_contract:
  assumes "eigh_diagonal C = Inr (w, V)"
  shows "eigh_contract C w V"
proof -
  from assms obtain a e i where "C = [[a, 0, 0], [0, e, 0], [0, 0, i]]" "w = [a, e, i]" "V = eye3"
    by (rule eigh_diagonal_Inr)
  thus ?thesis
    by (simp add: eigh_contract_def eigh_shape_def lt3 eye3_def column_def mat_vec_def
        vec_scale_def)
qed

lemma upt6: "[0..<6] = [0, 1, 2, 3, 4, 5]" by (simp add: upt_rec)

lemma covariance_defined:
  assumes rows: "list_all (\<lambda>v. length v = 3) vs" and two: "2 \<le> length vs"
  shows "\<exists>c C. np_mean_axis0 vs = Inr c \<and> covariance_of vs = Inr C"
proof -
  from two obtain v vs' where vs: "vs = v # vs'" by (cases vs) auto
  with rows have lv: "length v = 3" by simp
  define c where "c = map (\<lambda>col. sum_list col / real (length vs)) (np_transpose vs)"
  have m: "np_mean_axis0 vs = Inr c" using vs by (simp add: np_mean_axis0_def c_def)
  have lc: "length c = 3" using lv by (simp add: c_def vs np_transpose_def)
  define X where "X = np_transpose (map (\<lambda>v. vec_sub v c) vs)"
  have l0: "length (vec_sub v c) = 3" using lv lc by (simp add: vec_sub_def)
  have X: "X = map (\<lambda>j. map (\<lambda>row. row ! j) (map (\<lambda>v. vec_sub v c) vs)) [0, 1, 2]"
    using l0 by (simp add: X_def vs np_transpose_def upt3)
  have "\<exists>C. np_cov X = Inr C" using two unfolding X by (simp add: np_cov_def Let_def)
  thus ?thesis using m by (auto simp: covariance_of_def ebind_def X_def)
qed

lemma returned_axes_orthonormal:
  fixes self :: DensityLandmarkDetector
  assumes run: "analyze_mesh_geometry eigh self = Inr self'"
    and vs: "vertices self = Some vs" and cov: "covariance_of vs = Inr C"
    and e: "eigh C = Inr (w, V)" and con: "eigh_contract C w V"
  shows "\<exists>x0 x1 x2 l0 l1 l2.
           principal_axes self' = Some [x0, x1, x2]
         \<and> np_norm x0 = 1 \<and> np_norm x1 = 1 \<and> np_norm x2 = 1
         \<and> np_dot x0 x1 = 0 \<and> np_dot x0 x2 = 0 \<and> np_dot x1 x2 = 0
         \<and> mat_vec C x0 = vec_scale l0 x0 \<and> mat_vec C x1 = vec_scale l1 x1
         \<and> mat_vec C x2 = vec_scale l2 x2
         \<and> l0 \<ge> l1 \<and> l1 \<ge> l2"
proof -
  from run obtain vs' c C' w' V' where vs': "vertices self = Some vs'"
    and cov': "covariance_of vs' = Inr C'" and e': "eigh C' = Inr (w', V')"
    and self': "self' = self\<lparr>centroid := Some c,
        principal_axes := Some (np_transpose
           (map (\<lambda>row. map (\<lambda>i. row ! i) (rev (np_argsort w'))) V'))\<rparr>"
    by (rule analyze_mesh_geometry_Inr)
  from vs vs' cov cov' e e' have same: "w' = w" "V' = V" by simp_all
  from con obtain w0 w1 w2 a0 a1 a2 b0 b1 b2 c0 c1 c2 where
    w: "w = [w0, w1, w2]" and V: "V = [[a0, a1, a2], [b0, b1, b2], [c0, c1, c2]]"
    by (rule eigh_contract_cases)
  obtain i j k where s: "np_argsort w = [i, j, k]" and lt: "i < 3" "j < 3" "k < 3"
    and ne: "i \<noteq> j" "i \<noteq> k" "j \<noteq> k" and le: "w ! i \<le> w ! j" "w ! j \<le> w ! k"
    unfolding w by (rule np_argsort3_obtain)
  from con have orth: "\<And>i j. i < 3 \<Longrightarrow> j < 3 \<Longrightarrow>
      np_dot (column V i) (column V j) = (if i = j then 1 else 0)"
    and eig: "\<And>i. i < 3 \<Longrightarrow> mat_vec C (column V i) = vec_scale (w ! i) (column V i)"
    by (simp_all add: eigh_contract_def)
  have axes: "principal_axes self' = Some [column V k, column V j, column V i]"
    unfolding self' same s V by (simp add: np_transpose_def upt3 column_def)
  have n: "np_norm (column V k) = 1" "np_norm (column V j) = 1" "np_norm (column V i) = 1"
    using orth[OF lt(3) lt(3)] orth[OF lt(2) lt(2)] orth[OF lt(1) lt(1)]
    by (simp_all add: np_norm_def)
  have d: "np_dot (column V k) (column V j) = 0" "np_dot (column V k) (column V i) = 0"
    "np_dot (column V j) (column V i) = 0"
    using orth[OF lt(3) lt(2)] orth[OF lt(3) lt(1)] orth[OF lt(2) lt(1)] ne by simp_all
  show ?thesis
    using axes n d eig[OF lt(3)] eig[OF lt(2)] eig[OF lt(1)] le by blast
qed

lemma analysis_returns:
  fixes self :: DensityLandmarkDetector
  assumes vs: "vertices self = Some vs"
    and m: "np_mean_axis0 vs = Inr c" and cov: "covariance_of vs = Inr C"
    and e: "eigh C = Inr (w, V)" and sh: "eigh_shape w V"
  shows "\<exists>self'. analyze_mesh_geometry eigh self = Inr self'
           \<and> centroid self' \<noteq> None \<and> principal_axes self' \<noteq> None"
proof -
  from m cov have cov': "np_cov (np_transpose (map (\<lambda>v. vec_sub v c) vs)) = Inr C"
    by (simp add: covariance_of_def ebind_def)
  from sh obtain r0 r1 r2 where V: "V = [r0, r1, r2]"
    by (auto simp: eigh_shape_def length_Suc_conv eval_nat_numeral)
  from sh obtain w0 w1 w2 where w: "w = [w0, w1, w2]"
    by (auto simp: eigh_shape_def length_Suc_conv eval_nat_numeral)
  obtain i j k where s: "np_argsort w = [i, j, k]"
    unfolding w by (rule np_argsort3_obtain)
  have ne: "np_transpose (map (\<lambda>row. map (\<lambda>i. row ! i) (rev (np_argsort w))) V) \<noteq> []"
    unfolding s V by (simp add: np_transpose_def upt3)
  show ?thesis
    using ne by (simp add: analyze_mesh_geometry_def vs m cov' e ebind_def Let_def)
qed

lemma covariance_octahedron:
  "covariance_of octahedron_points = Inr [[2 / 5, 0, 0], [0, 8 / 5, 0], [0, 0, 18 / 5]]"
  by (simp add: covariance_of_def octahedron_points_def ebind_def np_mean_axis0_def
      np_transpose_def upt3 upt6 vec_sub_def np_cov_def Let_def)

lemma eigh_diagonal_octahedron:
  assumes "covariance_of octahedron_points = Inr C"
  shows "\<exists>w V. eigh_diagonal C = Inr (w, V) \<and> eigh_contract C w V"
proof -
  from assms covariance_octahedron have C: "C = [[2 / 5, 0, 0], [0, 8 / 5, 0], [0, 0, 18 / 5]]"
    by simp
  have "eigh_diagonal C = Inr ([2 / 5, 8 / 5, 18 / 5], eye3)"
    unfolding C by (simp add: eigh_diagonal_def)
  thus ?thesis using eigh_diagonal_contract by blast
qed

text \<open>
  Claim C2.  Provided \<open>eigh\<close> returns on the covariance matrix of the cloud what an
  eigen-decomposition returns (orthonormal eigenvectors as columns, one for each
  eigenvalue), the analysis of every array of at least two three-dimensional points
  returns a frame with three axes of norm 1 that are mutually orthogonal, each an
  eigenvector of the covariance matrix, in the order of descending eigenvalue
  (variance): the first axis is the one of greatest variance.  Over the reals the dot
  products are exactly 0 and the norms exactly 1.
\<close>

theorem principal_axes_orthonormal_descending:
  fixes self :: DensityLandmarkDetector
  assumes vs: "vertices self = Some vs"
    and rows: "list_all (\<lambda>v. length v = 3) vs" and two: "2 \<le> length vs"
    and eigh_ok: "\<And>C. covariance_of vs = Inr C \<Longrightarrow>
                    \<exists>w V. eigh C = Inr (w, V) \<and> eigh_contract C w V"
  shows "\<exists>self' x0 x1 x2 C l0 l1 l2.
           analyze_mesh_geometry eigh self = Inr self'
         \<and> principal_axes self' = Some [x0, x1, x2]
         \<and> np_norm x0 = 1 \<and> np_norm x1 = 1 \<and> np_norm x2 = 1
         \<and> np_dot x0 x1 = 0 \<and> np_dot x0 x2 = 0 \<and> np_dot x1 x2 = 0
         \<and> covariance_of vs = Inr C
         \<and> mat_vec C x0 = vec_scale l0 x0 \<and> mat_vec C x1 = vec_scale l1 x1
         \<and> mat_vec C x2 = vec_scale l2 x2
         \<and> l0 \<ge> l1 \<and> l1 \<ge> l2"
proof -
  from covariance_defined[OF rows two] obtain c C where
    m: "np_mean_axis0 vs = Inr c" and cov: "covariance_of vs = Inr C" by blast
  from eigh_ok[OF cov] obtain w V where e: "eigh C = Inr (w, V)"
    and con: "eigh_contract C w V" by blast
  from con have sh: "eigh_shape w V" by (simp add: eigh_contract_def)
  from analysis_returns[where eigh = eigh, OF vs m cov e sh] obtain self' where
    run: "analyze_mesh_geometry eigh self = Inr self'" by blast
  from returned_axes_orthonormal[where eigh = eigh, OF run vs cov e con] run cov
  show ?thesis by blast
qed

theorem principal_axes_orthonormal_descending_witness:
  "vertices (new_detector\<lparr>vertices := Some octahedron_points\<rparr>) = Some octahedron_points
   \<and> list_all (\<lambda>v. length v = 3) octahedron_points \<and> 2 \<le> length octahedron_points
   \<and> (\<exists>self' x0 x1 x2 C l0 l1 l2.
         analyze_mesh_geometry eigh_diagonal (new_detector\<lparr>vertices := Some octahedron_points\<rparr>)
           = Inr self'
       \<and> principal_axes self' = Some [x0, x1, x2]
       \<and> np_norm x0 = 1 \<and> np_norm x1 = 1 \<and> np_norm x2 = 1
       \<and> np_dot x0 x1 = 0 \<and> np_dot x0 x2 = 0 \<and> np_dot x1 x2 = 0
       \<and> covariance_of octahedron_points = Inr C
       \<and> mat_vec C x0 = vec_scale l0 x0 \<and> mat_vec C x1 = vec_scale l1 x1
       \<and> mat_vec C x2 = vec_scale l2 x2
       \<and> l0 \<ge> l1 \<and> l1 \<ge> l2)"
proof -
  have v: "vertices (new_detector\<lparr>vertices := Some octahedron_points\<rparr>) = Some octahedron_points"
    by simp
  have r: "list_all (\<lambda>v. length v = 3) octahedron_points" and t: "2 \<le> length octahedron_points"
    by (simp_all add: octahedron_points_def)
  from principal_axes_orthonormal_descending [OF v r t eigh_diagonal_octahedron] v r t
  show ?thesis by blast
qed

section \<open>Degenerate clouds\<close>

text \<open>
  Claim C4, as amended.  \<open>_analyze_mesh_geometry\<close> checks only that vertices are
  stored: without them it raises \<open>ValueError\<close>.  It has no check of the number of
  points or of degeneracy and no \<open>DegenerateGeometry\<close> error: for every array of at
  least two three-dimensional points (also fewer than four, collinear or coincident
  ones) the covariance matrix is computed, and whenever \<open>eigh\<close> returns on it (three
  eigenvalues and a 3 by 3 matrix) the analysis returns a frame with centroid and
  principal axes.
\<close>

theorem analyze_geometry_has_no_degeneracy_check:
  "analyze_mesh_geometry eigh (self\<lparr>vertices := None\<rparr>) = Inl ValueError
   \<and> (list_all (\<lambda>v. length v = 3) vs \<and> 2 \<le> length vs \<longrightarrow>
        (\<exists>C. covariance_of vs = Inr C \<and>
           (\<forall>w V. eigh C = Inr (w, V) \<and> eigh_shape w V \<longrightarrow>
              (\<exists>self'. analyze_mesh_geometry eigh (self\<lparr>vertices := Some vs\<rparr>) = Inr self'
                      \<and> centroid self' \<noteq> None \<and> principal_axes self' \<noteq> None))))"
proof (intro conjI impI)
  show "analyze_mesh_geometry eigh (self\<lparr>vertices := None\<rparr>) = Inl ValueError"
    by (simp add: analyze_mesh_geometry_def)
  assume "list_all (\<lambda>v. length v = 3) vs \<and> 2 \<le> length vs"
  hence "\<exists>c C. np_mean_axis0 vs = Inr c \<and> covariance_of vs = Inr C"
    by (intro covariance_defined) simp_all
  then obtain c C where m: "np_mean_axis0 vs = Inr c" and cov: "covariance_of vs = Inr C"
    by blast
  from m cov have cov': "np_cov (np_transpose (map (\<lambda>v. vec_sub v c) vs)) = Inr C"
    by (simp add: covariance_of_def ebind_def)
  have "\<exists>self'. analyze_mesh_geometry eigh (self\<lparr>vertices := Some vs\<rparr>) = Inr self'
                  \<and> centroid self' \<noteq> None \<and> principal_axes self' \<noteq> None"
    if e: "eigh C = Inr (w, V)" and sh: "eigh_shape w V" for w V
  proof -
    from sh obtain r0 r1 r2 where V: "V = [r0, r1, r2]"
      by (auto simp: eigh_shape_def length_Suc_conv eval_nat_numeral)
    from sh obtain w0 w1 w2 where w: "w = [w0, w1, w2]"
      by (auto simp: eigh_shape_def length_Suc_conv eval_nat_numeral)
    obtain i j k where s: "np_argsort w = [i, j, k]"
      unfolding w by (rule np_argsort3_obtain)
    have ne: "np_transpose (map (\<lambda>row. map (\<lambda>i. row ! i) (rev (np_argsort w))) V) \<noteq> []"
      unfolding s V by (simp add: np_transpose_def upt3)
    show ?thesis
      using ne by (simp add: analyze_mesh_geometry_def m cov' e ebind_def Let_def)
  qed
  with cov show "\<exists>C. covariance_of vs = Inr C \<and>
           (\<forall>w V. eigh C = Inr (w, V) \<and> eigh_shape w V \<longrightarrow>
              (\<exists>self'. analyze_mesh_geometry eigh (self\<lparr>vertices := Some vs\<rparr>) = Inr self'
                      \<and> centroid self' \<noteq> None \<and> principal_axes self' \<noteq> None))"
    by blast
qed

theorem analyze_geometry_has_no_degeneracy_check_witness:
  "list_all (\<lambda>v. length v = 3) three_collinear_points \<and> 2 \<le> length three_collinear_points
   \<and> (\<exists>C. covariance_of three_collinear_points = Inr C \<and>
         (\<forall>w V. eigh_diagonal C = Inr (w, V) \<and> eigh_shape w V \<longrightarrow>
            (\<exists>self'. analyze_mesh_geometry eigh_diagonal
                        (new_detector\<lparr>vertices := Some three_collinear_points\<rparr>) = Inr self'
                    \<and> centroid self' \<noteq> None \<and> principal_axes self' \<noteq> None)))"
proof -
  have h: "list_all (\<lambda>v. length v = 3) three_collinear_points
           \<and> 2 \<le> length three_collinear_points"
    by (simp add: three_collinear_points_def)
  from analyze_geometry_has_no_degeneracy_check
         [of eigh_diagonal new_detector three_collinear_points] h
  show ?thesis by blast
qed

text \<open>The claim as stated fails: for three collinear points, fewer than four and
  degenerate, the analysis returns a frame.\<close>

theorem analyze_geometry_has_no_degeneracy_check_counterexample:
  "analyze_mesh_geometry eigh_diagonal (new_detector\<lparr>vertices := Some three_collinear_points\<rparr>)
     = Inr (new_detector\<lparr>vertices := Some three_collinear_points, centroid := Some [0, 0, 1],
              principal_axes := Some [[0, 0, 1], [0, 1, 0], [1, 0, 0]]\<rparr>)"
  by (simp add: analyze_mesh_geometry_def new_detector_def three_collinear_points_def
      ebind_def np_mean_axis0_def np_transpose_def upt3 vec_sub_def np_cov_def
      eigh_diagonal_def np_argsort_def eye3_def Let_def)

section \<open>Too few slices\<close>

lemma length_masked_le: "length (masked xs m) \<le> length xs"
proof -
  have "length (filter snd (zip xs m)) \<le> length (zip xs m)" by (rule length_filter_le)
  thus ?thesis by (simp add: masked_def)
qed

lemma slice_entry_few:
  assumes "length vs \<le> 5"
  shows "slice_entry vs c ax pr th pos = None"
proof -
  have "length (masked vs (map (\<lambda>d. d \<le> th) (map (\<lambda>p. \<bar>p - pos\<bar>) pr))) \<le> 5"
    using length_masked_le[of vs] assms by (rule order_trans)
  thus ?thesis by (simp add: slice_entry_def Let_def)
qed

lemma density_slices_few:
  assumes "length vs \<le> 5"
  shows "density_slices vs c ax mn mx = []"
  by (simp add: density_slices_def Let_def List.map_filter_def slice_entry_few[OF assms])

lemma analyze_mesh_geometry_keeps:
  assumes "analyze_mesh_geometry eigh self = Inr self'"
  shows "vertices self' = vertices self" "faces self' = faces self"
    "landmarks self' = landmarks self"
  using assms
  by (auto simp: analyze_mesh_geometry_def ebind_def Let_def
      split: option.splits sum.splits prod.splits if_splits)

lemma np_argmin_Inr: "np_min xs = Inr m \<Longrightarrow> np_argmin xs = Inr (first_index xs m)"
  by (simp add: np_argmin_def ebind_def)

lemma np_argmax_Inr: "np_max xs = Inr m \<Longrightarrow> np_argmax xs = Inr (first_index xs m)"
  by (simp add: np_argmax_def ebind_def)

lemma few_slices_result:
  assumes an: "analyze_mesh_geometry eigh
                 (self0\<lparr>vertices := Some vs, faces := fs, landmarks := []\<rparr>) = Inr self"
    and ax: "principal_axes self = Some (primary_axis # other_axes)"
    and ce: "centroid self = Some c"
    and mn: "np_min (project_vertices vs c primary_axis) = Inr min_proj"
    and mx: "np_max (project_vertices vs c primary_axis) = Inr max_proj"
    and few: "length (density_slices vs c primary_axis min_proj max_proj) < 10"
  shows "\<exists>r nose_point tail_point.
           detect_landmarks eigh self0 vs fs = Inr r
         \<and> nose_point = vs ! first_index (project_vertices vs c primary_axis) max_proj
         \<and> tail_point = vs ! first_index (project_vertices vs c primary_axis) min_proj
         \<and> res_landmarks r =
             [(''nose'', nose_point), (''tail_tip'', tail_point),
              (''tail_attachment'',
               vec_add nose_point (vec_scale (7 / 10) (vec_sub tail_point nose_point)))]
         \<and> res_metadata r =
             \<lparr>detection_method = ''density_analysis'', coordinate_system = ''mesh_relative'',
              md_centroid = Some c, md_principal_axes = principal_axes self,
              landmarks_detected = [''nose'', ''tail_tip'', ''tail_attachment''],
              vertex_count = length vs\<rparr>"
proof -
  from analyze_mesh_geometry_keeps[OF an]
  have k: "vertices self = Some vs" "landmarks self = []" by simp_all
  have fb: "fallback_to_extremes self (project_vertices vs c primary_axis) =
      Inr (self\<lparr>landmarks :=
        [(''nose'', vs ! first_index (project_vertices vs c primary_axis) max_proj),
         (''tail_tip'', vs ! first_index (project_vertices vs c primary_axis) min_proj),
         (''tail_attachment'',
           vec_add (vs ! first_index (project_vertices vs c primary_axis) max_proj)
            (vec_scale (7 / 10)
              (vec_sub (vs ! first_index (project_vertices vs c primary_axis) min_proj)
                       (vs ! first_index (project_vertices vs c primary_axis) max_proj))))]\<rparr>)"
    by (simp add: fallback_to_extremes_def k np_argmin_Inr[OF mn] np_argmax_Inr[OF mx]
        ebind_def Let_def)
  have dn: "detect_nose_and_tail_by_density self =
      fallback_to_extremes self (project_vertices vs c primary_axis)"
    using few by (simp add: detect_nose_and_tail_by_density_def ax ce k mn mx ebind_def Let_def)
  show ?thesis
    by (simp add: detect_landmarks_def an dn fb ebind_def Let_def format_results_def k ce)
qed

lemma analyze_two_points:
  "analyze_mesh_geometry eigh_diagonal
     (new_detector\<lparr>vertices := Some two_points, faces := None, landmarks := []\<rparr>)
     = Inr (new_detector\<lparr>vertices := Some two_points, centroid := Some [0, 0, 1 / 2],
              principal_axes := Some [[0, 0, 1], [0, 1, 0], [1, 0, 0]]\<rparr>)"
  by (simp add: analyze_mesh_geometry_def new_detector_def two_points_def
      ebind_def np_mean_axis0_def np_transpose_def upt3 vec_sub_def np_cov_def
      eigh_diagonal_def np_argsort_def eye3_def Let_def)

lemma project_two_points:
  "project_vertices two_points [0, 0, 1 / 2] [0, 0, 1] = [- (1 / 2), 1 / 2]"
  by (simp add: project_vertices_def two_points_def vec_sub_def)

lemma slices_two_points:
  "density_slices two_points [0, 0, 1 / 2] [0, 0, 1] (- (1 / 2)) (1 / 2) = []"
  by (rule density_slices_few) (simp add: two_points_def)

lemma detect_two_points:
  "detect_landmarks eigh_diagonal new_detector two_points None =
     Inr \<lparr>res_landmarks =
            [(''nose'', [0, 0, 1]), (''tail_tip'', [0, 0, 0]),
             (''tail_attachment'', [0, 0, 3 / 10])],
          res_metadata =
            \<lparr>detection_method = ''density_analysis'', coordinate_system = ''mesh_relative'',
             md_centroid = Some [0, 0, 1 / 2],
             md_principal_axes = Some [[0, 0, 1], [0, 1, 0], [1, 0, 0]],
             landmarks_detected = [''nose'', ''tail_tip'', ''tail_attachment''],
             vertex_count = 2\<rparr>\<rparr>"
proof -
  have mn: "np_min (project_vertices two_points [0, 0, 1 / 2] [0, 0, 1]) = Inr (- (1 / 2))"
    by (simp add: project_two_points np_min_def)
  have mx: "np_max (project_vertices two_points [0, 0, 1 / 2] [0, 0, 1]) = Inr (1 / 2)"
    by (simp add: project_two_points np_max_def)
  have few: "length (density_slices two_points [0, 0, 1 / 2] [0, 0, 1] (- (1 / 2)) (1 / 2)) < 10"
    by (simp add: slices_two_points)
  have fi: "first_index [- (1 / 2), 1 / 2 :: real] (1 / 2) = 1"
    "first_index [- (1 / 2), 1 / 2 :: real] (- (1 / 2)) = 0"
    by (simp_all add: first_index_def)
  from few_slices_result [OF analyze_two_points _ _ mn mx few,
      of "[[0, 1, 0], [1, 0, 0]]"]
  obtain r where r: "detect_landmarks eigh_diagonal new_detector two_points None = Inr r"
    and l: "res_landmarks r =
       [(''nose'', two_points ! first_index (project_vertices two_points [0, 0, 1 / 2] [0, 0, 1]) (1 / 2)),
        (''tail_tip'', two_points ! first_index (project_vertices two_points [0, 0, 1 / 2] [0, 0, 1]) (- (1 / 2))),
        (''tail_attachment'',
          vec_add (two_points ! first_index (project_vertices two_points [0, 0, 1 / 2] [0, 0, 1]) (1 / 2))
            (vec_scale (7 / 10)
              (vec_sub (two_points ! first_index (project_vertices two_points [0, 0, 1 / 2] [0, 0, 1]) (- (1 / 2)))
                       (two_points ! first_index (project_vertices two_points [0, 0, 1 / 2] [0, 0, 1]) (1 / 2)))))]"
    and m: "res_metadata r =
             \<lparr>detection_method = ''density_analysis'', coordinate_system = ''mesh_relative'',
              md_centroid = Some [0, 0, 1 / 2],
              md_principal_axes = Some [[0, 0, 1], [0, 1, 0], [1, 0, 0]],
              landmarks_detected = [''nose'', ''tail_tip'', ''tail_attachment''],
              vertex_count = length two_points\<rparr>"
    by (auto simp: new_detector_def)
  have l': "res_landmarks r = [(''nose'', [0, 0, 1]), (''tail_tip'', [0, 0, 0]),
             (''tail_attachment'', [0, 0, 3 / 10])]"
    unfolding l project_two_points fi
    by (simp add: two_points_def vec_add_def vec_sub_def vec_scale_def)
  have m': "res_metadata r =
             \<lparr>detection_method = ''density_analysis'', coordinate_system = ''mesh_relative'',
              md_centroid = Some [0, 0, 1 / 2],
              md_principal_axes = Some [[0, 0, 1], [0, 1, 0], [1, 0, 0]],
              landmarks_detected = [''nose'', ''tail_tip'', ''tail_attachment''],
              vertex_count = 2\<rparr>"
    unfolding m by (simp add: two_points_def)
  have "r = \<lparr>res_landmarks = res_landmarks r, res_metadata = res_metadata r\<rparr>" by simp
  with r l' m' show ?thesis by simp
qed

lemma min_two_points:
  "np_min (project_vertices two_points [0, 0, 1 / 2] [0, 0, 1]) = Inr (- (1 / 2))"
  by (simp add: project_two_points np_min_def)

lemma max_two_points:
  "np_max (project_vertices two_points [0, 0, 1 / 2] [0, 0, 1]) = Inr (1 / 2)"
  by (simp add: project_two_points np_max_def)

lemma few_two_points:
  "length (density_slices two_points [0, 0, 1 / 2] [0, 0, 1] (- (1 / 2)) (1 / 2)) < 10"
  by (simp add: slices_two_points)

text \<open>
  Claim C7, as amended.  Whenever fewer than 10 usable slices survive the filtering,
  the detector falls back to the two global projection extremes, skipping the density
  reasoning, and returns normally: the nose is the vertex of greatest projection, the
  tail tip the vertex of least projection, the tail attachment lies 70 percent of the
  way from nose to tail tip.  The metadata of the result does not flag the fallback:
  it has no confidence field, and its detection method is \<open>density_analysis\<close> as for
  every other result.
\<close>

theorem fewer_than_ten_slices_falls_back:
  assumes an: "analyze_mesh_geometry eigh
                 (self0\<lparr>vertices := Some vs, faces := fs, landmarks := []\<rparr>) = Inr self"
    and ax: "principal_axes self = Some (primary_axis # other_axes)"
    and ce: "centroid self = Some c"
    and mn: "np_min (project_vertices vs c primary_axis) = Inr min_proj"
    and mx: "np_max (project_vertices vs c primary_axis) = Inr max_proj"
    and few: "length (density_slices vs c primary_axis min_proj max_proj) < 10"
  shows "\<exists>r nose_point tail_point.
           detect_landmarks eigh self0 vs fs = Inr r
         \<and> nose_point = vs ! first_index (project_vertices vs c primary_axis) max_proj
         \<and> tail_point = vs ! first_index (project_vertices vs c primary_axis) min_proj
         \<and> res_landmarks r =
             [(''nose'', nose_point), (''tail_tip'', tail_point),
              (''tail_attachment'',
               vec_add nose_point (vec_scale (7 / 10) (vec_sub tail_point nose_point)))]
         \<and> res_metadata r =
             \<lparr>detection_method = ''density_analysis'', coordinate_system = ''mesh_relative'',
              md_centroid = Some c, md_principal_axes = principal_axes self,
              landmarks_detected = [''nose'', ''tail_tip'', ''tail_attachment''],
              vertex_count = length vs\<rparr>"
  using an ax ce mn mx few by (rule few_slices_result)

theorem fewer_than_ten_slices_falls_back_witness:
  "length (density_slices two_points [0, 0, 1 / 2] [0, 0, 1] (- (1 / 2)) (1 / 2)) < 10
   \<and> (\<exists>r nose_point tail_point.
         detect_landmarks eigh_diagonal new_detector two_points None = Inr r
       \<and> nose_point
           = two_points ! first_index (project_vertices two_points [0, 0, 1 / 2] [0, 0, 1]) (1 / 2)
       \<and> tail_point
           = two_points
               ! first_index (project_vertices two_points [0, 0, 1 / 2] [0, 0, 1]) (- (1 / 2))
       \<and> res_landmarks r =
           [(''nose'', nose_point), (''tail_tip'', tail_point),
            (''tail_attachment'',
             vec_add nose_point (vec_scale (7 / 10) (vec_sub tail_point nose_point)))]
       \<and> res_metadata r =
           \<lparr>detection_method = ''density_analysis'', coordinate_system = ''mesh_relative'',
            md_centroid = Some [0, 0, 1 / 2],
            md_principal_axes = Some [[0, 0, 1], [0, 1, 0], [1, 0, 0]],
            landmarks_detected = [''nose'', ''tail_tip'', ''tail_attachment''],
            vertex_count = length two_points\<rparr>)"
  using fewer_than_ten_slices_falls_back
          [OF analyze_two_points _ _ min_two_points max_two_points few_two_points,
           of "[[0, 1, 0], [1, 0, 0]]"]
    few_two_points
  by (simp add: new_detector_def)

text \<open>The claim as stated fails: on two points no slice survives, the result comes
  from the fallback, and this is all of its metadata.\<close>

theorem fewer_than_ten_slices_falls_back_counterexample:
  "length (density_slices two_points [0, 0, 1 / 2] [0, 0, 1] (- (1 / 2)) (1 / 2)) < 10
   \<and> detect_landmarks eigh_diagonal new_detector two_points None =
       Inr \<lparr>res_landmarks =
              [(''nose'', [0, 0, 1]), (''tail_tip'', [0, 0, 0]),
               (''tail_attachment'', [0, 0, 3 / 10])],
            res_metadata =
              \<lparr>detection_method = ''density_analysis'', coordinate_system = ''mesh_relative'',
               md_centroid = Some [0, 0, 1 / 2],
               md_principal_axes = Some [[0, 0, 1], [0, 1, 0], [1, 0, 0]],
               landmarks_detected = [''nose'', ''tail_tip'', ''tail_attachment''],
               vertex_count = 2\<rparr>\<rparr>"
  using few_two_points detect_two_points by simp

section \<open>Failures and fallbacks of detect\_landmarks\<close>

lemma np_min_total: "xs \<noteq> [] \<Longrightarrow> \<exists>m. np_min xs = Inr m"
  by (cases xs) (simp_all add: np_min_def)

lemma np_max_total: "xs \<noteq> [] \<Longrightarrow> \<exists>m. np_max xs = Inr m"
  by (cases xs) (simp_all add: np_max_def)

lemma np_argmin_total: "xs \<noteq> [] \<Longrightarrow> \<exists>i. np_argmin xs = Inr i"
  using np_min_total[of xs] by (auto simp: np_argmin_def ebind_def)

lemma np_argmax_total: "xs \<noteq> [] \<Longrightarrow> \<exists>i. np_argmax xs = Inr i"
  using np_max_total[of xs] by (auto simp: np_argmax_def ebind_def)

lemma np_mean_total: "xs \<noteq> [] \<Longrightarrow> \<exists>m. np_mean xs = Inr m"
  by (simp add: np_mean_def)

lemma length_masked:
  "length xs = length m \<Longrightarrow> length (masked xs m) = np_sum_mask m"
proof (induction xs m rule: list_induct2)
  case Nil
  then show ?case by (simp add: masked_def np_sum_mask_def)
next
  case (Cons x xs y ys)
  then show ?case by (simp add: masked_def np_sum_mask_def)
qed

lemma masked_nonempty:
  "length xs = length m \<Longrightarrow> 0 < np_sum_mask m \<Longrightarrow> masked xs m \<noteq> []"
  using length_masked[of xs m] by auto

lemma length_convolve_same: "v \<noteq> [] \<Longrightarrow> length (np_convolve_same a v) = length a"
proof -
  assume "v \<noteq> []"
  hence l: "1 \<le> length v" by (cases v) auto
  have "(length v - 1) div 2 \<le> length v - 1" by simp
  with l have le: "length a \<le> length a + length v - 1 - (length v - 1) div 2" by linarith
  have f: "length (convolve_full a v) = length a + length v - 1"
    by (simp add: convolve_full_def)
  have "length (np_convolve_same a v)
      = min (length a) (length (convolve_full a v) - (length v - 1) div 2)"
    unfolding np_convolve_same_def by (simp only: length_take length_drop min.commute)
  also have "\<dots> = length a" unfolding f using le by (rule min_absorb1)
  finally show ?thesis .
qed

lemma length_np_diff: "length (np_diff xs) = length xs - 1"
  by (simp add: np_diff_def)

lemma update_landmarks_empty:
  "AList.update ''tail_attachment'' a (AList.update ''tail_tip'' t (AList.update ''nose'' n []))
     = [(''nose'', n), (''tail_tip'', t), (''tail_attachment'', a)]"
  by simp

lemma fallback_total:
  assumes "vertices self = Some vs" "landmarks self = []" "pr \<noteq> []"
  shows "\<exists>n t a. fallback_to_extremes self pr =
           Inr (self\<lparr>landmarks := [(''nose'', n), (''tail_tip'', t), (''tail_attachment'', a)]\<rparr>)"
proof -
  from np_argmin_total[OF assms(3)] np_argmax_total[OF assms(3)]
  obtain i j where "np_argmin pr = Inr i" "np_argmax pr = Inr j" by blast
  thus ?thesis
    by (auto simp: fallback_to_extremes_def assms(1,2) ebind_def Let_def)
qed

lemma region_extreme_total:
  assumes "pr \<noteq> []" "length vs = length pr"
  shows "\<exists>p. region_extreme vs pr center tol upper = Inr p"
proof -
  let ?m = "map (\<lambda>p. \<bar>p - center\<bar> \<le> tol) pr"
  show ?thesis
  proof (cases "np_sum_mask ?m > 0")
    case True
    have "masked pr ?m \<noteq> []" using True by (intro masked_nonempty) simp_all
    from np_argmax_total[OF this] np_argmin_total[OF this]
    obtain i j where "np_argmax (masked pr ?m) = Inr i" "np_argmin (masked pr ?m) = Inr j"
      by blast
    with True show ?thesis by (simp add: region_extreme_def Let_def ebind_def)
  next
    case False
    from np_argmax_total[OF assms(1)] np_argmin_total[OF assms(1)]
    obtain i j where "np_argmax pr = Inr i" "np_argmin pr = Inr j" by blast
    with False show ?thesis by (simp add: region_extreme_def Let_def ebind_def)
  qed
qed

lemma detect_nose_and_tail_total:
  assumes vs: "vertices self = Some vs" and ne: "vs \<noteq> []"
    and ce: "centroid self = Some c"
    and ax: "principal_axes self = Some axes" and axne: "axes \<noteq> []"
    and lm: "landmarks self = []"
  shows "\<exists>n t a. detect_nose_and_tail_by_density self =
           Inr (self\<lparr>landmarks := [(''nose'', n), (''tail_tip'', t), (''tail_attachment'', a)]\<rparr>)"
proof -
  let ?axis = "axes ! 0"
  let ?pr = "project_vertices vs c ?axis"
  have prne: "?pr \<noteq> []" using ne by (simp add: project_vertices_def)
  have lpr: "length vs = length ?pr" by (simp add: project_vertices_def)
  from np_min_total[OF prne] np_max_total[OF prne]
  obtain mn mx where mn: "np_min ?pr = Inr mn" and mx: "np_max ?pr = Inr mx" by blast
  let ?slices = "density_slices vs c ?axis mn mx"
  let ?dens = "map fst ?slices"
  let ?cent = "map (\<lambda>s. fst (snd s)) ?slices"
  let ?w = "max 3 (length ?dens div 8)"
  let ?sm = "np_convolve_same ?dens (replicate ?w (1 / real ?w))"
  let ?g = "np_diff ?sm"
  from fallback_total[OF vs lm prne]
  obtain n0 t0 a0 where fb: "fallback_to_extremes self ?pr =
     Inr (self\<lparr>landmarks := [(''nose'', n0), (''tail_tip'', t0), (''tail_attachment'', a0)]\<rparr>)"
    by blast
  show ?thesis
  proof (cases "length ?slices < 10")
    case True
    hence "detect_nose_and_tail_by_density self = fallback_to_extremes self ?pr"
      using axne by (simp add: detect_nose_and_tail_by_density_def vs ce ax mn mx ebind_def Let_def)
    with fb show ?thesis by auto
  next
    case False
    have lsm: "length ?sm = length ?slices"
      by (subst length_convolve_same) simp_all
    have "?g \<noteq> []" using False lsm by (simp add: length_np_diff flip: length_greater_0_conv)
    from np_argmax_total[OF this] obtain idx where idx: "np_argmax ?g = Inr idx" by blast
    let ?pos = "?cent ! idx"
    let ?tm = "map (\<lambda>s. s \<le> ?pos) ?cent"
    let ?bm = "map (\<lambda>s. s > ?pos) ?cent"
    show ?thesis
    proof (cases "np_sum_mask ?tm > 2 \<and> np_sum_mask ?bm > 2")
      case f2: False
      hence "detect_nose_and_tail_by_density self = fallback_to_extremes self ?pr"
        using axne False idx
        by (auto simp: detect_nose_and_tail_by_density_def vs ce ax mn mx ebind_def Let_def)
      with fb show ?thesis by auto
    next
      case True
      hence t: "0 < np_sum_mask ?tm" and b: "0 < np_sum_mask ?bm" by simp_all
      have "masked ?sm ?tm \<noteq> []" using t lsm by (intro masked_nonempty) simp_all
      from np_mean_total[OF this] obtain m1 where m1: "np_mean (masked ?sm ?tm) = Inr m1" by blast
      have "masked ?sm ?bm \<noteq> []" using b lsm by (intro masked_nonempty) simp_all
      from np_mean_total[OF this] obtain m2 where m2: "np_mean (masked ?sm ?bm) = Inr m2" by blast
      have "masked ?cent ?tm \<noteq> []" using t by (intro masked_nonempty) simp_all
      from np_mean_total[OF this] obtain m3 where m3: "np_mean (masked ?cent ?tm) = Inr m3" by blast
      have "masked ?cent ?bm \<noteq> []" using b by (intro masked_nonempty) simp_all
      from np_mean_total[OF this] obtain m4 where m4: "np_mean (masked ?cent ?bm) = Inr m4" by blast
      let ?tc = "if m1 < m2 then m3 else m4"
      let ?hc = "if m1 < m2 then m4 else m3"
      let ?tol = "(mx - mn) * (1 / 4)"
      from region_extreme_total[OF prne lpr]
      obtain np where np: "region_extreme vs ?pr ?hc ?tol (?hc > ?tc) = Inr np" by blast
      from region_extreme_total[OF prne lpr]
      obtain tp where tp: "region_extreme vs ?pr ?tc ?tol (\<not> ?tc < ?hc) = Inr tp" by blast
      let ?d = "map (\<lambda>v. np_norm (vec_sub v (vec_add c (vec_scale ?pos ?axis)))) vs"
      have "?d \<noteq> []" using ne by simp
      from np_argmin_total[OF this] obtain ai where ai: "np_argmin ?d = Inr ai" by blast
      show ?thesis
        using axne False True idx m1 m2 m3 m4 np tp ai
        by (auto simp: detect_nose_and_tail_by_density_def vs ce ax lm mn mx ebind_def Let_def)
    qed
  qed
qed

lemma analyze_result_fields:
  assumes "analyze_mesh_geometry eigh self = Inr self'"
  shows "\<exists>vs c axes. vertices self = Some vs \<and> vs \<noteq> [] \<and> centroid self' = Some c
           \<and> principal_axes self' = Some axes \<and> axes \<noteq> []"
  using assms
  by (auto simp: analyze_mesh_geometry_def ebind_def Let_def np_mean_axis0_def
      split: option.splits sum.splits prod.splits if_splits)

lemma detect_landmarks_total:
  assumes an: "analyze_mesh_geometry eigh
                 (self0\<lparr>vertices := Some vs, faces := fs, landmarks := []\<rparr>) = Inr self"
  shows "\<exists>r n t a. detect_landmarks eigh self0 vs fs = Inr r
           \<and> res_landmarks r = [(''nose'', n), (''tail_tip'', t), (''tail_attachment'', a)]
           \<and> detection_method (res_metadata r) = ''density_analysis''"
proof -
  from analyze_mesh_geometry_keeps[OF an]
  have k: "vertices self = Some vs" "landmarks self = []" by simp_all
  from analyze_result_fields[OF an] obtain c axes where ne: "vs \<noteq> []"
    and ce: "centroid self = Some c" and ax: "principal_axes self = Some axes"
    and axne: "axes \<noteq> []" by auto
  from detect_nose_and_tail_total[OF k(1) ne ce ax axne k(2)]
  obtain n t a where "detect_nose_and_tail_by_density self =
     Inr (self\<lparr>landmarks := [(''nose'', n), (''tail_tip'', t), (''tail_attachment'', a)]\<rparr>)"
    by blast
  thus ?thesis
    by (simp add: detect_landmarks_def an ebind_def Let_def format_results_def)
qed

lemma analyze_diagonal_points:
  "analyze_mesh_geometry eigh_diagonal
     (new_detector\<lparr>vertices := Some diagonal_points, faces := None, landmarks := []\<rparr>)
     = Inl LinAlgError"
  by (simp add: analyze_mesh_geometry_def new_detector_def diagonal_points_def
      ebind_def np_mean_axis0_def np_transpose_def upt3 vec_sub_def np_cov_def
      eigh_diagonal_def Let_def)

lemma project_three_collinear:
  "project_vertices three_collinear_points [0, 0, 1] [0, 0, 1] = [- 1, 0, 1]"
  by (simp add: project_vertices_def three_collinear_points_def vec_sub_def)

lemma analyze_three_collinear:
  "analyze_mesh_geometry eigh_diagonal
     (new_detector\<lparr>vertices := Some three_collinear_points, faces := None, landmarks := []\<rparr>)
     = Inr (new_detector\<lparr>vertices := Some three_collinear_points, centroid := Some [0, 0, 1],
              principal_axes := Some [[0, 0, 1], [0, 1, 0], [1, 0, 0]]\<rparr>)"
  by (simp add: analyze_mesh_geometry_def new_detector_def three_collinear_points_def
      ebind_def np_mean_axis0_def np_transpose_def upt3 vec_sub_def np_cov_def
      eigh_diagonal_def np_argsort_def eye3_def Let_def)

lemma detect_three_collinear:
  "detect_landmarks eigh_diagonal new_detector three_collinear_points None =
     Inr \<lparr>res_landmarks =
            [(''nose'', [0, 0, 2]), (''tail_tip'', [0, 0, 0]),
             (''tail_attachment'', [0, 0, 3 / 5])],
          res_metadata =
            \<lparr>detection_method = ''density_analysis'', coordinate_system = ''mesh_relative'',
             md_centroid = Some [0, 0, 1],
             md_principal_axes = Some [[0, 0, 1], [0, 1, 0], [1, 0, 0]],
             landmarks_detected = [''nose'', ''tail_tip'', ''tail_attachment''],
             vertex_count = 3\<rparr>\<rparr>"
proof -
  have mn: "np_min (project_vertices three_collinear_points [0, 0, 1] [0, 0, 1]) = Inr (- 1)"
    by (simp add: project_three_collinear np_min_def)
  have mx: "np_max (project_vertices three_collinear_points [0, 0, 1] [0, 0, 1]) = Inr 1"
    by (simp add: project_three_collinear np_max_def)
  have "density_slices three_collinear_points [0, 0, 1] [0, 0, 1] (- 1) 1 = []"
    by (rule density_slices_few) (simp add: three_collinear_points_def)
  hence few: "length (density_slices three_collinear_points [0, 0, 1] [0, 0, 1] (- 1) 1) < 10"
    by simp
  have fi: "first_index [- 1, 0, 1 :: real] 1 = 2" "first_index [- 1, 0, 1 :: real] (- 1) = 0"
    by (simp_all add: first_index_def)
  from few_slices_result [OF analyze_three_collinear _ _ mn mx few,
      of "[[0, 1, 0], [1, 0, 0]]"]
  obtain r where
    r: "detect_landmarks eigh_diagonal new_detector three_collinear_points None = Inr r"
    and l: "res_landmarks r =
       [(''nose'', three_collinear_points
           ! first_index (project_vertices three_collinear_points [0, 0, 1] [0, 0, 1]) 1),
        (''tail_tip'', three_collinear_points
           ! first_index (project_vertices three_collinear_points [0, 0, 1] [0, 0, 1]) (- 1)),
        (''tail_attachment'',
          vec_add (three_collinear_points
                     ! first_index (project_vertices three_collinear_points [0, 0, 1] [0, 0, 1]) 1)
            (vec_scale (7 / 10)
              (vec_sub (three_collinear_points
                     ! first_index (project_vertices three_collinear_points [0, 0, 1] [0, 0, 1]) (- 1))
                       (three_collinear_points
                     ! first_index (project_vertices three_collinear_points [0, 0, 1] [0, 0, 1]) 1))))]"
    and m: "res_metadata r =
             \<lparr>detection_method = ''density_analysis'', coordinate_system = ''mesh_relative'',
              md_centroid = Some [0, 0, 1],
              md_principal_axes = Some [[0, 0, 1], [0, 1, 0], [1, 0, 0]],
              landmarks_detected = [''nose'', ''tail_tip'', ''tail_attachment''],
              vertex_count = length three_collinear_points\<rparr>"
    by (auto simp: new_detector_def)
  have l': "res_landmarks r = [(''nose'', [0, 0, 2]), (''tail_tip'', [0, 0, 0]),
             (''tail_attachment'', [0, 0, 3 / 5])]"
    unfolding l project_three_collinear fi
    by (simp add: three_collinear_points_def vec_add_def vec_sub_def vec_scale_def)
  have m': "res_metadata r =
             \<lparr>detection_method = ''density_analysis'', coordinate_system = ''mesh_relative'',
              md_centroid = Some [0, 0, 1],
              md_principal_axes = Some [[0, 0, 1], [0, 1, 0], [1, 0, 0]],
              landmarks_detected = [''nose'', ''tail_tip'', ''tail_attachment''],
              vertex_count = 3\<rparr>"
    unfolding m by (simp add: three_collinear_points_def)
  have "r = \<lparr>res_landmarks = res_landmarks r, res_metadata = res_metadata r\<rparr>" by simp
  with r l' m' show ?thesis by simp
qed

text \<open>
  Claim C5, as amended.  \<open>detect_landmarks\<close> can fail: it re-raises every exception
  of the geometry analysis, and the geometric detector raises \<open>ValueError\<close> for an array
  whose rows do not have three coordinates.  Whenever the geometry analysis succeeds,
  the density detector returns a result with the landmarks \<open>nose\<close>, \<open>tail_tip\<close> and
  \<open>tail_attachment\<close>: too few slices, an unbalanced partition and empty regions are
  absorbed by the fallbacks.  The metadata does not report them: the detection method
  is \<open>density_analysis\<close> on every path.
\<close>

theorem detect_landmarks_failures_and_fallbacks:
  "(analyze_mesh_geometry eigh1
      (self1\<lparr>vertices := Some vs1, faces := fs1, landmarks := []\<rparr>) = Inl e
    \<longrightarrow> detect_landmarks eigh1 self1 vs1 fs1 = Inl e)
   \<and> (analyze_mesh_geometry eigh2
        (self2\<lparr>vertices := Some vs2, faces := fs2, landmarks := []\<rparr>) = Inr self
      \<longrightarrow> (\<exists>r n t a. detect_landmarks eigh2 self2 vs2 fs2 = Inr r
             \<and> res_landmarks r = [(''nose'', n), (''tail_tip'', t), (''tail_attachment'', a)]
             \<and> detection_method (res_metadata r) = ''density_analysis''))
   \<and> (shape1 vs3 = Inr k \<and> k \<noteq> 3
      \<longrightarrow> geo_detect_landmarks pca self3 vs3 fs3 = Inl ValueError)"
proof (intro conjI impI)
  assume "analyze_mesh_geometry eigh1
      (self1\<lparr>vertices := Some vs1, faces := fs1, landmarks := []\<rparr>) = Inl e"
  thus "detect_landmarks eigh1 self1 vs1 fs1 = Inl e"
    by (simp add: detect_landmarks_def ebind_def Let_def)
next
  assume "analyze_mesh_geometry eigh2
        (self2\<lparr>vertices := Some vs2, faces := fs2, landmarks := []\<rparr>) = Inr self"
  thus "\<exists>r n t a. detect_landmarks eigh2 self2 vs2 fs2 = Inr r
             \<and> res_landmarks r = [(''nose'', n), (''tail_tip'', t), (''tail_attachment'', a)]
             \<and> detection_method (res_metadata r) = ''density_analysis''"
    by (rule detect_landmarks_total)
next
  assume "shape1 vs3 = Inr k \<and> k \<noteq> 3"
  thus "geo_detect_landmarks pca self3 vs3 fs3 = Inl ValueError"
    by (simp add: geo_detect_landmarks_def ebind_def)
qed

theorem detect_landmarks_failures_and_fallbacks_witness:
  "analyze_mesh_geometry eigh_diagonal
      (new_detector\<lparr>vertices := Some diagonal_points, faces := None, landmarks := []\<rparr>)
     = Inl LinAlgError
   \<and> detect_landmarks eigh_diagonal new_detector diagonal_points None = Inl LinAlgError
   \<and> (\<exists>r n t a. detect_landmarks eigh_diagonal new_detector two_points None = Inr r
             \<and> res_landmarks r = [(''nose'', n), (''tail_tip'', t), (''tail_attachment'', a)]
             \<and> detection_method (res_metadata r) = ''density_analysis'')
   \<and> shape1 planar_points = Inr 2
   \<and> geo_detect_landmarks pca_unavailable new_detector planar_points None = Inl ValueError"
proof -
  have s: "shape1 planar_points = Inr 2 \<and> (2::nat) \<noteq> 3"
    by (simp add: shape1_def planar_points_def)
  from detect_landmarks_failures_and_fallbacks
    [where ?eigh1.0 = eigh_diagonal and ?self1.0 = new_detector and ?vs1.0 = diagonal_points
       and ?fs1.0 = None and e = LinAlgError
       and ?eigh2.0 = eigh_diagonal and ?self2.0 = new_detector and ?vs2.0 = two_points
       and ?fs2.0 = None and ?vs3.0 = planar_points and k = 2
       and pca = pca_unavailable and ?self3.0 = new_detector and ?fs3.0 = None]
    analyze_diagonal_points analyze_two_points s
  show ?thesis by blast
qed

text \<open>The claim as stated fails: the geometric detector raises on an array of shape
  \<open>(2, 2)\<close>; and on three collinear points the density detector absorbs the lack of
  slices by the fallback without any report in the metadata.\<close>

theorem detect_landmarks_failures_and_fallbacks_counterexample:
  "geo_detect_landmarks pca_unavailable new_detector planar_points None = Inl ValueError
   \<and> detect_landmarks eigh_diagonal new_detector three_collinear_points None =
       Inr \<lparr>res_landmarks =
              [(''nose'', [0, 0, 2]), (''tail_tip'', [0, 0, 0]),
               (''tail_attachment'', [0, 0, 3 / 5])],
            res_metadata =
              \<lparr>detection_method = ''density_analysis'', coordinate_system = ''mesh_relative'',
               md_centroid = Some [0, 0, 1],
               md_principal_axes = Some [[0, 0, 1], [0, 1, 0], [1, 0, 0]],
               landmarks_detected = [''nose'', ''tail_tip'', ''tail_attachment''],
               vertex_count = 3\<rparr>\<rparr>"
  using detect_three_collinear
  by (simp add: geo_detect_landmarks_def ebind_def shape1_def planar_points_def)

section \<open>The round trip: compute the alignment, then verify it\<close>





















































end
